theory Spec2Isabelle
  imports Main "HOL-Library.Multiset"
begin

section \<open>JavaScript conventions used by the services\<close>

text \<open>
  A value that may be \<^verbatim>\<open>undefined\<close> or \<^verbatim>\<open>null\<close> is an \<open>option\<close>; both are \<open>None\<close>, since
  optional chaining, nullish coalescing and the truth test treat them alike.
\<close>

definition truthy :: "string option \<Rightarrow> bool" where
  \<comment> \<open>the truth test on a string that may be missing: the empty string is falsy\<close>
  "truthy v = (case v of None \<Rightarrow> False | Some s \<Rightarrow> s \<noteq> [])"

definition chain :: "'a option \<Rightarrow> ('a \<Rightarrow> 'b option) \<Rightarrow> 'b option" where
  \<comment> \<open>optional chaining \<^verbatim>\<open>a?.f\<close>\<close>
  "chain a f = (case a of None \<Rightarrow> None | Some x \<Rightarrow> f x)"

definition nullish :: "'a option \<Rightarrow> 'a \<Rightarrow> 'a" where
  \<comment> \<open>nullish coalescing \<^verbatim>\<open>a ?? d\<close>\<close>
  "nullish a d = (case a of None \<Rightarrow> d | Some x \<Rightarrow> x)"

definition str_or :: "string option \<Rightarrow> string \<Rightarrow> string" where
  \<comment> \<open>\<^verbatim>\<open>a || d\<close> on a string that may be missing\<close>
  "str_or a d = (case a of None \<Rightarrow> d | Some s \<Rightarrow> if s \<noteq> [] then s else d)"

definition some :: "('a \<Rightarrow> bool) \<Rightarrow> 'a list \<Rightarrow> bool" where
  \<comment> \<open>\<^verbatim>\<open>Array.prototype.some\<close>\<close>
  "some p xs = list_ex p xs"

definition every :: "('a \<Rightarrow> bool) \<Rightarrow> 'a list \<Rightarrow> bool" where
  \<comment> \<open>\<^verbatim>\<open>Array.prototype.every\<close>\<close>
  "every p xs = list_all p xs"

section \<open>Workflow runs\<close>

subsection \<open>The raw run record\<close>

record ObjectMeta =
  meta_name :: "string option"
  meta_uid :: "string option"
  meta_namespace :: "string option"
  meta_creationTimestamp :: "string option"
  meta_labels :: "(string \<rightharpoonup> string) option"
  meta_annotations :: "(string \<rightharpoonup> string) option"

record Condition =
  cond_type :: "string option"
  cond_status :: "string option"
  cond_reason :: "string option"

record Task =
  task_phase :: "string option"
  task_completedAt :: "string option"

record RunStatus =
  st_conditions :: "Condition list option"
  st_tasks :: "Task list option"
  st_completedAt :: "string option"
  st_startedAt :: "string option"

text \<open>The workflow parameters are an open dictionary of unknown values: a type parameter.\<close>

record 'p WorkflowRef =
  wf_name :: string
  wf_parameters :: 'p

record 'p WorkflowRunSpec =
  spec_workflow :: "'p WorkflowRef option"

record 'p WorkflowRun =
  run_metadata :: "ObjectMeta option"
  run_spec :: "'p WorkflowRunSpec option"
  run_status :: "RunStatus option"

record 'p ComponentWorkflowRunResponse =
  resp_name :: string
  resp_uuid :: string
  resp_componentName :: string
  resp_projectName :: string
  resp_namespaceName :: string
  resp_status :: string
  resp_commit :: "string option"
  resp_image :: "string option"
  resp_createdAt :: "string option"
  resp_workflow :: "'p WorkflowRef option"

subsection \<open>openchoreo-backend: transformers/workflow-run.ts\<close>

definition transformComponentWorkflowRun ::
  "'p WorkflowRun \<Rightarrow> 'p ComponentWorkflowRunResponse" where
  "transformComponentWorkflowRun run =
    (let labels = nullish (chain (run_metadata run) meta_labels) Map.empty;
         annotations = nullish (chain (run_metadata run) meta_annotations) Map.empty;
         readyCondition =
           chain (chain (run_status run) st_conditions)
             (find (\<lambda>c. cond_type c = Some ''Ready''));
         tasks = nullish (chain (run_status run) st_tasks) [];
         status =
           (if truthy (chain (run_status run) st_completedAt) then
              (if some (\<lambda>t. task_phase t = Some ''Failed'' \<or> task_phase t = Some ''Error'') tasks
               then ''Failed''
               else
                 (let reason = chain readyCondition cond_reason in
                  case reason of
                    None \<Rightarrow> ''Succeeded''
                  | Some r \<Rightarrow>
                      if r \<noteq> [] \<and> r \<noteq> ''Running'' \<and> r \<noteq> ''Pending'' then r
                      else ''Succeeded''))
            else
              (case readyCondition of
                 Some rc \<Rightarrow>
                   str_or (cond_reason rc)
                     (if cond_status rc = Some ''True'' then ''Succeeded'' else ''Running'')
               | None \<Rightarrow>
                   if some (\<lambda>t. task_phase t = Some ''Failed'' \<or> task_phase t = Some ''Error'') tasks
                   then ''Failed''
                   else if length tasks > 0 \<and> every (\<lambda>t. task_phase t = Some ''Succeeded'') tasks
                   then ''Succeeded''
                   else if some (\<lambda>t. task_phase t = Some ''Running'') tasks then ''Running''
                   else if truthy (chain (run_status run) st_startedAt) then ''Running''
                   else ''Pending''))
     in \<lparr> resp_name = nullish (chain (run_metadata run) meta_name) [],
          resp_uuid = nullish (chain (run_metadata run) meta_uid) [],
          resp_componentName = nullish (labels ''openchoreo.dev/component'') [],
          resp_projectName = nullish (labels ''openchoreo.dev/project'') [],
          resp_namespaceName = nullish (chain (run_metadata run) meta_namespace) [],
          resp_status = status,
          resp_commit = annotations ''openchoreo.dev/commit'',
          resp_image = annotations ''openchoreo.dev/image'',
          resp_createdAt = chain (run_metadata run) meta_creationTimestamp,
          resp_workflow =
            (case chain (run_spec run) spec_workflow of
               None \<Rightarrow> None
             | Some w \<Rightarrow> Some \<lparr> wf_name = wf_name w, wf_parameters = wf_parameters w \<rparr>) \<rparr>)"

subsection \<open>openchoreo-ci-backend: WorkflowService\<close>

definition deriveWorkflowRunStatus :: "'p WorkflowRun \<Rightarrow> string" where
  "deriveWorkflowRunStatus run =
    (let readyCondition =
           find (\<lambda>c. cond_type c = Some ''Ready'')
             (nullish (chain (run_status run) st_conditions) []);
         tasks = nullish (chain (run_status run) st_tasks) []
     in
       if truthy (chain (run_status run) st_completedAt) then
         (if some (\<lambda>t. task_phase t = Some ''Failed'' \<or> task_phase t = Some ''Error'') tasks
          then ''Failed''
          else
            (let reason = chain readyCondition cond_reason in
             case reason of
               Some r \<Rightarrow>
                 if r \<noteq> [] \<and> r \<noteq> ''Running'' \<and> r \<noteq> ''Pending'' then r
                 else ''Succeeded''
             | None \<Rightarrow> ''Succeeded''))
       else
         (case readyCondition of
            Some rc \<Rightarrow>
              str_or (cond_reason rc)
                (if cond_status rc = Some ''True'' then ''Succeeded'' else ''Running'')
          | None \<Rightarrow>
              if some (\<lambda>t. task_phase t = Some ''Failed'' \<or> task_phase t = Some ''Error'') tasks
              then ''Failed''
              else if every (\<lambda>t. task_phase t = Some ''Succeeded'') tasks \<and> length tasks > 0
              then ''Succeeded''
              else if some (\<lambda>t. task_phase t = Some ''Running'') tasks then ''Running''
              else if truthy (chain (run_status run) st_startedAt) then ''Running''
              else ''Pending''))"

definition transformWorkflowRun :: "'p WorkflowRun \<Rightarrow> 'p ComponentWorkflowRunResponse" where
  "transformWorkflowRun run =
    (let labels = nullish (chain (run_metadata run) meta_labels) Map.empty;
         annotations = nullish (chain (run_metadata run) meta_annotations) Map.empty;
         status = deriveWorkflowRunStatus run
     in \<lparr> resp_name = nullish (chain (run_metadata run) meta_name) [],
          resp_uuid = nullish (chain (run_metadata run) meta_uid) [],
          resp_componentName = nullish (labels ''openchoreo.dev/component'') [],
          resp_projectName = nullish (labels ''openchoreo.dev/project'') [],
          resp_namespaceName = nullish (chain (run_metadata run) meta_namespace) [],
          resp_status = status,
          resp_commit = annotations ''openchoreo.dev/commit'',
          resp_image = annotations ''openchoreo.dev/image'',
          resp_createdAt = chain (run_metadata run) meta_creationTimestamp,
          resp_workflow =
            (case chain (run_spec run) spec_workflow of
               None \<Rightarrow> None
             | Some w \<Rightarrow> Some \<lparr> wf_name = wf_name w, wf_parameters = wf_parameters w \<rparr>) \<rparr>)"

subsection \<open>Vocabulary of the status rules\<close>

text \<open>
  The words of the rules, read off the run record: a timestamp is set when it is present
  and not empty (the test the code applies), the Ready condition is the first condition
  of type \<open>Ready\<close>, and the task list of a record without one is empty.
\<close>

definition completedAtOf :: "'p WorkflowRun \<Rightarrow> string option" where
  "completedAtOf run = (case run_status run of None \<Rightarrow> None | Some st \<Rightarrow> st_completedAt st)"

definition startedAtOf :: "'p WorkflowRun \<Rightarrow> string option" where
  "startedAtOf run = (case run_status run of None \<Rightarrow> None | Some st \<Rightarrow> st_startedAt st)"

definition tasksOf :: "'p WorkflowRun \<Rightarrow> Task list" where
  "tasksOf run =
     (case run_status run of None \<Rightarrow> []
      | Some st \<Rightarrow> (case st_tasks st of None \<Rightarrow> [] | Some ts \<Rightarrow> ts))"

fun firstReady :: "Condition list \<Rightarrow> Condition option" where
  "firstReady [] = None"
| "firstReady (c # cs) = (if cond_type c = Some ''Ready'' then Some c else firstReady cs)"

definition readyConditionOf :: "'p WorkflowRun \<Rightarrow> Condition option" where
  "readyConditionOf run =
     (case run_status run of None \<Rightarrow> None
      | Some st \<Rightarrow> (case st_conditions st of None \<Rightarrow> None | Some cs \<Rightarrow> firstReady cs))"

definition readyReasonOf :: "'p WorkflowRun \<Rightarrow> string option" where
  "readyReasonOf run =
     (case readyConditionOf run of None \<Rightarrow> None | Some c \<Rightarrow> cond_reason c)"

definition anyTask :: "string \<Rightarrow> Task list \<Rightarrow> bool" where
  "anyTask p ts = (\<exists>t \<in> set ts. task_phase t = Some p)"

definition anyFailedTask :: "Task list \<Rightarrow> bool" where
  "anyFailedTask ts = (anyTask ''Failed'' ts \<or> anyTask ''Error'' ts)"

definition allTasksSucceeded :: "Task list \<Rightarrow> bool" where
  "allTasksSucceeded ts = (ts \<noteq> [] \<and> (\<forall>t \<in> set ts. task_phase t = Some ''Succeeded''))"

definition statusIs :: "'p WorkflowRun \<Rightarrow> string \<Rightarrow> bool" where
  \<comment> \<open>both implementations label the run \<open>s\<close>\<close>
  "statusIs run s =
     (deriveWorkflowRunStatus run = s \<and> resp_status (transformComponentWorkflowRun run) = s)"

text \<open>
  The priority-ordered algorithm as the specification words it (section 4.1), over the
  vocabulary above; the two implementations are compared with it below.
\<close>

definition deriveStatus :: "'p WorkflowRun \<Rightarrow> string" where
  "deriveStatus run =
     (if truthy (completedAtOf run) then
        (if anyFailedTask (tasksOf run) then ''Failed''
         else
           (case readyReasonOf run of
              Some r \<Rightarrow>
                if r \<noteq> [] \<and> r \<noteq> ''Running'' \<and> r \<noteq> ''Pending'' then r else ''Succeeded''
            | None \<Rightarrow> ''Succeeded''))
      else
        (case readyConditionOf run of
           Some rc \<Rightarrow>
             (case cond_reason rc of
                Some r \<Rightarrow>
                  if r \<noteq> [] then r
                  else if cond_status rc = Some ''True'' then ''Succeeded'' else ''Running''
              | None \<Rightarrow> if cond_status rc = Some ''True'' then ''Succeeded'' else ''Running'')
         | None \<Rightarrow>
             if anyFailedTask (tasksOf run) then ''Failed''
             else if allTasksSucceeded (tasksOf run) then ''Succeeded''
             else if anyTask ''Running'' (tasksOf run) then ''Running''
             else if truthy (startedAtOf run) then ''Running''
             else ''Pending''))"

subsection \<open>Sample run records\<close>

definition mkRun :: "RunStatus option \<Rightarrow> unit WorkflowRun" where
  "mkRun st = \<lparr> run_metadata = None, run_spec = None, run_status = st \<rparr>"

definition mkTask :: "string \<Rightarrow> Task" where
  "mkTask p = \<lparr> task_phase = Some p, task_completedAt = None \<rparr>"

definition mkCondition :: "string \<Rightarrow> string \<Rightarrow> string option \<Rightarrow> Condition" where
  "mkCondition ty s r = \<lparr> cond_type = Some ty, cond_status = Some s, cond_reason = r \<rparr>"

definition staleRunningRun :: "unit WorkflowRun" where
  \<comment> \<open>completed run whose Ready condition still says Running\<close>
  "staleRunningRun =
     mkRun (Some \<lparr> st_conditions = Some [mkCondition ''Ready'' ''False'' (Some ''Running'')],
                   st_tasks = Some [mkTask ''Succeeded''],
                   st_completedAt = Some ''2024-01-01T00:00:00Z'',
                   st_startedAt = None \<rparr>)"

definition cancelledRun :: "unit WorkflowRun" where
  "cancelledRun =
     mkRun (Some \<lparr> st_conditions = Some [mkCondition ''Ready'' ''False'' (Some ''Cancelled'')],
                   st_tasks = Some [mkTask ''Succeeded''],
                   st_completedAt = Some ''2024-01-01T00:00:00Z'',
                   st_startedAt = None \<rparr>)"

definition failedTaskRun :: "unit WorkflowRun" where
  "failedTaskRun =
     mkRun (Some \<lparr> st_conditions = Some [mkCondition ''Ready'' ''True'' (Some ''Cancelled'')],
                   st_tasks = Some [mkTask ''Succeeded'', mkTask ''Error''],
                   st_completedAt = Some ''2024-01-01T00:00:00Z'',
                   st_startedAt = None \<rparr>)"

definition pendingConditionRun :: "unit WorkflowRun" where
  \<comment> \<open>run in progress: a Ready condition with reason Pending and no tasks\<close>
  "pendingConditionRun =
     mkRun (Some \<lparr> st_conditions = Some [mkCondition ''Ready'' ''False'' (Some ''Pending'')],
                   st_tasks = Some [],
                   st_completedAt = None,
                   st_startedAt = None \<rparr>)"

definition readyTrueRun :: "unit WorkflowRun" where
  "readyTrueRun =
     mkRun (Some \<lparr> st_conditions = Some [mkCondition ''Ready'' ''True'' None],
                   st_tasks = Some [mkTask ''Failed''],
                   st_completedAt = None,
                   st_startedAt = Some ''2024-01-01T00:00:00Z'' \<rparr>)"

definition emptyReasonRun :: "string option \<Rightarrow> string \<Rightarrow> unit WorkflowRun" where
  \<comment> \<open>a Ready condition whose reason is the empty string\<close>
  "emptyReasonRun done s =
     mkRun (Some \<lparr> st_conditions = Some [mkCondition ''Ready'' s (Some [])],
                   st_tasks = Some [mkTask ''Succeeded''],
                   st_completedAt = done,
                   st_startedAt = None \<rparr>)"

definition tasksOnlyRun :: "string list \<Rightarrow> string option \<Rightarrow> unit WorkflowRun" where
  \<comment> \<open>no completion time and no conditions: only task phases and the start time\<close>
  "tasksOnlyRun ps started =
     mkRun (Some \<lparr> st_conditions = None,
                   st_tasks = Some (map mkTask ps),
                   st_completedAt = None,
                   st_startedAt = started \<rparr>)"

section \<open>Asynchronous service methods\<close>

text \<open>
  A service method is an \<^verbatim>\<open>async\<close> function: awaited, it either returns a value or throws,
  and on the way it writes to the logger. Its model is the settled outcome (\<open>Inl\<close> the
  thrown error) paired with the log entries written, in order. Only warn and error
  entries are kept; their text is the source's template without the elapsed-time
  suffix, whose value is a wall-clock reading. A call that never settles has no outcome
  and is outside the model.
\<close>

datatype exn = Exn string

datatype level = Warn | Error

datatype log_entry = Log level string "exn option"

type_synonym 'a async = "(exn + 'a) \<times> log_entry list"

definition returnA :: "'a \<Rightarrow> 'a async" where
  "returnA v = (Inr v, [])"

definition awaitA :: "exn + 'a \<Rightarrow> 'a async" where
  \<comment> \<open>awaiting a call of the client library, whose outcome is given\<close>
  "awaitA r = (r, [])"

definition logA :: "level \<Rightarrow> string \<Rightarrow> exn option \<Rightarrow> unit async" where
  "logA lv msg cause = (Inr (), [Log lv msg cause])"

definition bindA :: "'a async \<Rightarrow> ('a \<Rightarrow> 'b async) \<Rightarrow> 'b async" where
  \<comment> \<open>sequencing: a throw skips the rest\<close>
  "bindA p f =
     (case p of
        (Inl e, l) \<Rightarrow> (Inl e, l)
      | (Inr v, l) \<Rightarrow> (case f v of (r, l') \<Rightarrow> (r, l @ l')))"

definition tryCatch :: "'a async \<Rightarrow> (exn \<Rightarrow> 'a async) \<Rightarrow> 'a async" where
  \<comment> \<open>\<^verbatim>\<open>try { p } catch (error) { h }\<close>\<close>
  "tryCatch p h =
     (case p of
        (Inr v, l) \<Rightarrow> (Inr v, l)
      | (Inl e, l) \<Rightarrow> (case h e of (r, l') \<Rightarrow> (r, l @ l')))"

fun allA :: "'a async list \<Rightarrow> 'a list async" where
  \<comment> \<open>\<^verbatim>\<open>Promise.all\<close>: every promise runs; the values in request order, or a rejection\<close>
  "allA [] = (Inr [], [])"
| "allA (p # ps) =
     (case (p, allA ps) of
        ((r, l), (rs, ls)) \<Rightarrow>
          ((case r of
              Inl e \<Rightarrow> Inl e
            | Inr v \<Rightarrow> (case rs of Inl e \<Rightarrow> Inl e | Inr vs \<Rightarrow> Inr (v # vs))),
           l @ ls))"

fun foldA :: "('s \<Rightarrow> 'a \<Rightarrow> 's async) \<Rightarrow> 's \<Rightarrow> 'a list \<Rightarrow> 's async" where
  \<comment> \<open>callbacks that update one shared accumulator, run one after another\<close>
  "foldA f s [] = returnA s"
| "foldA f s (x # xs) = bindA (f s x) (\<lambda>s'. foldA f s' xs)"

definition slice :: "'a list \<Rightarrow> nat \<Rightarrow> nat \<Rightarrow> 'a list" where
  \<comment> \<open>\<^verbatim>\<open>xs.slice(a, b)\<close> for \<open>a \<le> b\<close>\<close>
  "slice xs a b = take (b - a) (drop a xs)"

definition num_or :: "nat option \<Rightarrow> nat \<Rightarrow> nat" where
  \<comment> \<open>\<^verbatim>\<open>a || d\<close> on a number that may be missing: zero is falsy\<close>
  "num_or a d = (case a of None \<Rightarrow> d | Some n \<Rightarrow> if n \<noteq> 0 then n else d)"

subsection \<open>The built-in Map\<close>

text \<open>A \<^verbatim>\<open>Map\<close> keeps its keys in insertion order: an association list without repeated keys.\<close>

type_synonym 'v JsMap = "(string \<times> 'v) list"

definition Map_has :: "'v JsMap \<Rightarrow> string \<Rightarrow> bool" where
  "Map_has m k = (map_of m k \<noteq> None)"

definition Map_get :: "'v JsMap \<Rightarrow> string \<Rightarrow> 'v option" where
  "Map_get m k = map_of m k"

fun Map_set :: "'v JsMap \<Rightarrow> string \<Rightarrow> 'v \<Rightarrow> 'v JsMap" where
  "Map_set [] k v = [(k, v)]"
| "Map_set ((k', v') # m) k v =
     (if k' = k then (k, v) # m else (k', v') # Map_set m k v)"

section \<open>Run records as JSON values\<close>

text \<open>
  The records above give every field its declared type. The declarations are erased
  when the code runs (the CI backend declares its argument \<^verbatim>\<open>run: any\<close> to begin with):
  what both derivations receive is the JSON value the platform API sent. On such a value
  the property read \<^verbatim>\<open>v.k\<close> throws a \<^verbatim>\<open>TypeError\<close> when \<open>v\<close> is \<^verbatim>\<open>undefined\<close> or \<^verbatim>\<open>null\<close>, and
  so does the call of an array method on a value that is not an array. An object holds
  one value for a key; the list of pairs that stands for it is read at the first pair
  of the key.
\<close>

datatype jsval =
    Undefined
  | Null
  | Bool bool
  | Num int
  | Str string
  | Arr "jsval list"
  | Obj "(string \<times> jsval) list"

definition typeError :: "exn + 'a" where
  "typeError = Inl (Exn ''TypeError'')"

definition isNullish :: "jsval \<Rightarrow> bool" where
  "isNullish v = (v = Undefined \<or> v = Null)"

definition truthyV :: "jsval \<Rightarrow> bool" where
  \<comment> \<open>the truth test\<close>
  "truthyV v =
     (case v of
        Undefined \<Rightarrow> False
      | Null \<Rightarrow> False
      | Bool b \<Rightarrow> b
      | Num n \<Rightarrow> n \<noteq> 0
      | Str s \<Rightarrow> s \<noteq> []
      | Arr xs \<Rightarrow> True
      | Obj kvs \<Rightarrow> True)"

definition member :: "jsval \<Rightarrow> string \<Rightarrow> jsval" where
  \<comment> \<open>the property \<open>k\<close> of a value that is neither \<^verbatim>\<open>undefined\<close> nor \<^verbatim>\<open>null\<close>, for the keys
      read here, none of which a string, a number or an array has\<close>
  "member v k =
     (case v of
        Obj kvs \<Rightarrow> (case map_of kvs k of None \<Rightarrow> Undefined | Some x \<Rightarrow> x)
      | _ \<Rightarrow> Undefined)"

definition getProp :: "jsval \<Rightarrow> string \<Rightarrow> exn + jsval" where
  \<comment> \<open>\<^verbatim>\<open>v.k\<close>\<close>
  "getProp v k = (if isNullish v then typeError else Inr (member v k))"

definition optProp :: "jsval \<Rightarrow> string \<Rightarrow> jsval" where
  \<comment> \<open>\<^verbatim>\<open>v?.k\<close>\<close>
  "optProp v k = (if isNullish v then Undefined else member v k)"

definition coalesce :: "jsval \<Rightarrow> jsval \<Rightarrow> jsval" where
  \<comment> \<open>\<^verbatim>\<open>a ?? d\<close>\<close>
  "coalesce a d = (if isNullish a then d else a)"

definition bindE :: "exn + 'a \<Rightarrow> ('a \<Rightarrow> exn + 'b) \<Rightarrow> exn + 'b" where
  "bindE r f = (case r of Inl e \<Rightarrow> Inl e | Inr v \<Rightarrow> f v)"

fun findE :: "(jsval \<Rightarrow> exn + bool) \<Rightarrow> jsval list \<Rightarrow> exn + jsval" where
  \<comment> \<open>\<^verbatim>\<open>find\<close> on an array: the first element the callback accepts\<close>
  "findE p [] = Inr Undefined"
| "findE p (x # xs) =
     (case p x of Inl e \<Rightarrow> Inl e | Inr b \<Rightarrow> if b then Inr x else findE p xs)"

fun someE :: "(jsval \<Rightarrow> exn + bool) \<Rightarrow> jsval list \<Rightarrow> exn + bool" where
  \<comment> \<open>\<^verbatim>\<open>some\<close> on an array: stops at the first element the callback accepts\<close>
  "someE p [] = Inr False"
| "someE p (x # xs) =
     (case p x of Inl e \<Rightarrow> Inl e | Inr b \<Rightarrow> if b then Inr True else someE p xs)"

fun everyE :: "(jsval \<Rightarrow> exn + bool) \<Rightarrow> jsval list \<Rightarrow> exn + bool" where
  \<comment> \<open>\<^verbatim>\<open>every\<close> on an array: stops at the first element the callback rejects\<close>
  "everyE p [] = Inr True"
| "everyE p (x # xs) =
     (case p x of Inl e \<Rightarrow> Inl e | Inr b \<Rightarrow> if b then everyE p xs else Inr False)"

definition callOnArray :: "jsval \<Rightarrow> (jsval list \<Rightarrow> exn + 'a) \<Rightarrow> exn + 'a" where
  \<comment> \<open>\<^verbatim>\<open>v.find(..)\<close>, \<^verbatim>\<open>v.some(..)\<close>, \<^verbatim>\<open>v.every(..)\<close>: only an array has these methods\<close>
  "callOnArray v method = (case v of Arr xs \<Rightarrow> method xs | _ \<Rightarrow> typeError)"

definition lengthPositive :: "jsval \<Rightarrow> bool" where
  \<comment> \<open>\<^verbatim>\<open>tasks.length > 0\<close>; it is evaluated only after \<^verbatim>\<open>tasks.some(..)\<close> has returned, that
      is on an array\<close>
  "lengthPositive v = (case v of Arr xs \<Rightarrow> length xs > 0 | _ \<Rightarrow> False)"

definition typeIsReady :: "jsval \<Rightarrow> exn + bool" where
  \<comment> \<open>\<^verbatim>\<open>c => c.type === 'Ready'\<close>\<close>
  "typeIsReady c = bindE (getProp c ''type'') (\<lambda>t. Inr (t = Str ''Ready''))"

definition phaseFailed :: "jsval \<Rightarrow> exn + bool" where
  \<comment> \<open>\<^verbatim>\<open>t => t.phase === 'Failed' || t.phase === 'Error'\<close>\<close>
  "phaseFailed t =
     bindE (getProp t ''phase'') (\<lambda>p.
       if p = Str ''Failed'' then Inr True
       else bindE (getProp t ''phase'') (\<lambda>p'. Inr (p' = Str ''Error'')))"

definition phaseIs :: "string \<Rightarrow> jsval \<Rightarrow> exn + bool" where
  \<comment> \<open>\<^verbatim>\<open>t => t.phase === 'Succeeded'\<close> and \<^verbatim>\<open>t => t.phase === 'Running'\<close>\<close>
  "phaseIs s t = bindE (getProp t ''phase'') (\<lambda>p. Inr (p = Str s))"

definition deriveWorkflowRunStatus_raw :: "jsval \<Rightarrow> exn + jsval" where
  "deriveWorkflowRunStatus_raw run =
     bindE (getProp run ''status'') (\<lambda>status.
     bindE (callOnArray (coalesce (optProp status ''conditions'') (Arr [])) (findE typeIsReady))
       (\<lambda>readyCondition.
     let tasks = coalesce (optProp status ''tasks'') (Arr []) in
     if truthyV (optProp status ''completedAt'') then
       bindE (callOnArray tasks (someE phaseFailed)) (\<lambda>failed.
         if failed then Inr (Str ''Failed'')
         else
           (let reason = optProp readyCondition ''reason'' in
            if truthyV reason \<and> reason \<noteq> Str ''Running'' \<and> reason \<noteq> Str ''Pending''
            then Inr reason
            else Inr (Str ''Succeeded'')))
     else if truthyV readyCondition then
       bindE (getProp readyCondition ''reason'') (\<lambda>reason.
         if truthyV reason then Inr reason
         else
           bindE (getProp readyCondition ''status'') (\<lambda>s.
             Inr (Str (if s = Str ''True'' then ''Succeeded'' else ''Running''))))
     else
       bindE (callOnArray tasks (someE phaseFailed)) (\<lambda>failed.
         if failed then Inr (Str ''Failed'')
         else
           bindE (callOnArray tasks (everyE (phaseIs ''Succeeded''))) (\<lambda>allSucceeded.
             if allSucceeded \<and> lengthPositive tasks then Inr (Str ''Succeeded'')
             else
               bindE (callOnArray tasks (someE (phaseIs ''Running''))) (\<lambda>running.
                 if running then Inr (Str ''Running'')
                 else if truthyV (optProp status ''startedAt'') then Inr (Str ''Running'')
                 else Inr (Str ''Pending''))))))"

definition buildResponse :: "jsval \<Rightarrow> jsval \<Rightarrow> jsval \<Rightarrow> jsval \<Rightarrow> exn + jsval" where
  \<comment> \<open>the object both transformers return\<close>
  "buildResponse run labels annotations label =
     bindE (getProp run ''metadata'') (\<lambda>metadata.
     bindE (getProp run ''spec'') (\<lambda>spec.
     bindE
       (if truthyV (optProp spec ''workflow'') then
          bindE (getProp spec ''workflow'') (\<lambda>workflow.
          bindE (getProp workflow ''name'') (\<lambda>name.
          bindE (getProp workflow ''parameters'') (\<lambda>parameters.
            Inr (Obj [(''name'', name), (''parameters'', parameters)]))))
        else Inr Undefined)
       (\<lambda>workflow.
          Inr (Obj
            [(''name'', coalesce (optProp metadata ''name'') (Str [])),
             (''uuid'', coalesce (optProp metadata ''uid'') (Str [])),
             (''componentName'', coalesce (member labels ''openchoreo.dev/component'') (Str [])),
             (''projectName'', coalesce (member labels ''openchoreo.dev/project'') (Str [])),
             (''namespaceName'', coalesce (optProp metadata ''namespace'') (Str [])),
             (''status'', label),
             (''commit'', member annotations ''openchoreo.dev/commit''),
             (''image'', member annotations ''openchoreo.dev/image''),
             (''createdAt'', optProp metadata ''creationTimestamp''),
             (''workflow'', workflow)]))))"

definition transformWorkflowRun_raw :: "jsval \<Rightarrow> exn + jsval" where
  "transformWorkflowRun_raw run =
     bindE (getProp run ''metadata'') (\<lambda>metadata.
     let labels = coalesce (optProp metadata ''labels'') (Obj []);
         annotations = coalesce (optProp metadata ''annotations'') (Obj [])
     in bindE (deriveWorkflowRunStatus_raw run) (\<lambda>status.
          buildResponse run labels annotations status))"

definition componentRunStatus_raw :: "jsval \<Rightarrow> exn + jsval" where
  \<comment> \<open>lines 21 to 52 of the transformer: the value of its variable \<^verbatim>\<open>status\<close>\<close>
  "componentRunStatus_raw run =
     bindE (getProp run ''status'') (\<lambda>status.
     bindE
       (let conditions = optProp status ''conditions''
        in if isNullish conditions then Inr Undefined
           else callOnArray conditions (findE typeIsReady))
       (\<lambda>readyCondition.
     let tasks = coalesce (optProp status ''tasks'') (Arr []) in
     if truthyV (optProp status ''completedAt'') then
       bindE (callOnArray tasks (someE phaseFailed)) (\<lambda>failed.
         if failed then Inr (Str ''Failed'')
         else
           (let reason = optProp readyCondition ''reason'' in
            if truthyV reason \<and> reason \<noteq> Str ''Running'' \<and> reason \<noteq> Str ''Pending''
            then Inr reason
            else Inr (Str ''Succeeded'')))
     else if truthyV readyCondition then
       bindE (getProp readyCondition ''reason'') (\<lambda>reason.
         if truthyV reason then Inr reason
         else
           bindE (getProp readyCondition ''status'') (\<lambda>s.
             Inr (Str (if s = Str ''True'' then ''Succeeded'' else ''Running''))))
     else
       bindE (callOnArray tasks (someE phaseFailed)) (\<lambda>failed.
         if failed then Inr (Str ''Failed'')
         else
           bindE
             (if lengthPositive tasks then callOnArray tasks (everyE (phaseIs ''Succeeded''))
              else Inr False)
             (\<lambda>allSucceeded.
                if allSucceeded then Inr (Str ''Succeeded'')
                else
                  bindE (callOnArray tasks (someE (phaseIs ''Running''))) (\<lambda>running.
                    if running then Inr (Str ''Running'')
                    else if truthyV (optProp status ''startedAt'') then Inr (Str ''Running'')
                    else Inr (Str ''Pending''))))))"

definition transformComponentWorkflowRun_raw :: "jsval \<Rightarrow> exn + jsval" where
  "transformComponentWorkflowRun_raw run =
     bindE (getProp run ''metadata'') (\<lambda>metadata.
     let labels = coalesce (optProp metadata ''labels'') (Obj []);
         annotations = coalesce (optProp metadata ''annotations'') (Obj [])
     in bindE (componentRunStatus_raw run) (\<lambda>status.
          buildResponse run labels annotations status))"

subsection \<open>The run record a JSON value carries\<close>

text \<open>
  A JSON value is a run record of the data model when it is an object whose \<open>status\<close> is
  missing or an object with an optional \<open>completedAt\<close> and \<open>startedAt\<close>, an optional list
  of conditions and an optional list of tasks; a condition and a task are objects, and
  their \<open>type\<close>, \<open>status\<close>, \<open>reason\<close> and \<open>phase\<close> are optional strings. Optional means
  missing, \<^verbatim>\<open>null\<close> or present; other fields may hold anything. \<open>runRecordOf\<close> reads such a
  value into the typed record.
\<close>

definition isOptString :: "jsval \<Rightarrow> bool" where
  "isOptString v = (case v of Undefined \<Rightarrow> True | Null \<Rightarrow> True | Str s \<Rightarrow> True | _ \<Rightarrow> False)"

definition isObject :: "jsval \<Rightarrow> bool" where
  "isObject v = (case v of Obj kvs \<Rightarrow> True | _ \<Rightarrow> False)"

definition isOptArrayOf :: "(jsval \<Rightarrow> bool) \<Rightarrow> jsval \<Rightarrow> bool" where
  "isOptArrayOf p v =
     (case v of Undefined \<Rightarrow> True | Null \<Rightarrow> True | Arr xs \<Rightarrow> list_all p xs | _ \<Rightarrow> False)"

definition isConditionV :: "jsval \<Rightarrow> bool" where
  "isConditionV c =
     (isObject c \<and> isOptString (member c ''type'') \<and> isOptString (member c ''status'')
      \<and> isOptString (member c ''reason''))"

definition isTaskV :: "jsval \<Rightarrow> bool" where
  "isTaskV t = (isObject t \<and> isOptString (member t ''phase''))"

definition isStatusV :: "jsval \<Rightarrow> bool" where
  "isStatusV st =
     (isNullish st \<or>
      isObject st \<and> isOptArrayOf isConditionV (member st ''conditions'')
      \<and> isOptArrayOf isTaskV (member st ''tasks'')
      \<and> isOptString (member st ''completedAt'') \<and> isOptString (member st ''startedAt''))"

definition isRunRecord :: "jsval \<Rightarrow> bool" where
  "isRunRecord run = (isObject run \<and> isStatusV (member run ''status''))"

definition decodeStr :: "jsval \<Rightarrow> string option" where
  "decodeStr v = (case v of Str s \<Rightarrow> Some s | _ \<Rightarrow> None)"

definition decodeList :: "(jsval \<Rightarrow> 'a) \<Rightarrow> jsval \<Rightarrow> 'a list option" where
  "decodeList f v = (case v of Arr xs \<Rightarrow> Some (map f xs) | _ \<Rightarrow> None)"

definition decodeCondition :: "jsval \<Rightarrow> Condition" where
  "decodeCondition c =
     \<lparr> cond_type = decodeStr (member c ''type''),
       cond_status = decodeStr (member c ''status''),
       cond_reason = decodeStr (member c ''reason'') \<rparr>"

definition decodeTask :: "jsval \<Rightarrow> Task" where
  "decodeTask t =
     \<lparr> task_phase = decodeStr (member t ''phase''),
       task_completedAt = decodeStr (member t ''completedAt'') \<rparr>"

definition decodeStatus :: "jsval \<Rightarrow> RunStatus option" where
  "decodeStatus st =
     (if isObject st then
        Some \<lparr> st_conditions = decodeList decodeCondition (member st ''conditions''),
               st_tasks = decodeList decodeTask (member st ''tasks''),
               st_completedAt = decodeStr (member st ''completedAt''),
               st_startedAt = decodeStr (member st ''startedAt'') \<rparr>
      else None)"

definition runRecordOf :: "jsval \<Rightarrow> unit WorkflowRun" where
  "runRecordOf run = mkRun (decodeStatus (member run ''status''))"

definition nullTaskRun :: jsval where
  \<comment> \<open>outside the data model: the task list holds \<^verbatim>\<open>null\<close>\<close>
  "nullTaskRun = Obj [(''status'', Obj [(''tasks'', Arr [Null])])]"

definition rawRun :: "(string \<times> jsval) list \<Rightarrow> jsval" where
  "rawRun kvs = Obj [(''metadata'', Obj [(''name'', Str ''build-1'')]), (''status'', Obj kvs)]"

definition noReasonRun :: jsval where
  \<comment> \<open>no completion time, an empty task list, no start time, and a Ready condition without a
      reason\<close>
  "noReasonRun =
     rawRun [(''conditions'', Arr [Obj [(''type'', Str ''Ready''), (''status'', Str ''True'')]]),
             (''tasks'', Arr [])]"

section \<open>The platform API client\<close>

text \<open>
  Resources come in the Kubernetes style. The service reads their metadata and status
  only through helpers of the client library, so that part of a resource is an opaque
  header \<open>'h\<close> and the helpers are parameters; the spec is read field by field.
\<close>

record ('h, 's) Resource =
  res_header :: 'h
  res_spec :: "'s option"

record 'h Lib =
  getName :: "'h \<Rightarrow> string option"
  getNamespace :: "'h \<Rightarrow> string option"
  getDisplayName :: "'h \<Rightarrow> string option"
  getDescription :: "'h \<Rightarrow> string option"
  getCreatedAt :: "'h \<Rightarrow> string option"
  isReady :: "'h \<Rightarrow> bool"

record NameRef =
  ref_kind :: "string option"
  ref_name :: "string option"

record EnvironmentGateway =
  eg_publicVirtualHost :: "string option"

record EnvironmentSpec =
  es_dataPlaneRef :: "NameRef option"
  es_isProduction :: "bool option"
  es_gateway :: "EnvironmentGateway option"

record DataPlaneGateway =
  dg_publicVirtualHost :: "string option"
  dg_organizationVirtualHost :: "string option"
  dg_publicHTTPPort :: "nat option"
  dg_publicHTTPSPort :: "nat option"
  dg_organizationHTTPPort :: "nat option"
  dg_organizationHTTPSPort :: "nat option"

record DataPlaneSpec =
  ds_gateway :: "DataPlaneGateway option"
  ds_secretStoreRef :: "NameRef option"
  ds_observabilityPlaneRef :: "NameRef option"
  ds_imagePullSecretRefs :: "string list option"

record ReleaseBindingSpec =
  rb_environment :: "string option"

type_synonym 'h NewEnvironment = "('h, EnvironmentSpec) Resource"
type_synonym 'h NewDataPlane = "('h, DataPlaneSpec) Resource"
type_synonym 'h NewReleaseBinding = "('h, ReleaseBindingSpec) Resource"

record 'a ListResponse =
  items :: "'a list option"
  nextCursor :: "string option"

datatype ApiError = ApiError string

record Response =
  ok :: bool
  status :: string  \<comment> \<open>the status code, as it prints\<close>
  statusText :: string

record 'd FetchResult =
  res_data :: "'d option"
  res_error :: "ApiError option"
  res_response :: Response

text \<open>
  The client's \<^verbatim>\<open>GET\<close>, one field per path; the arguments are the path and query
  parameters the service passes, and \<open>Inl\<close> is a request that throws.
\<close>

record 'h Client =
  GET_namespaces :: "exn + 'h ListResponse FetchResult"
  GET_environments :: "string \<Rightarrow> exn + 'h NewEnvironment ListResponse FetchResult"
  GET_dataplanes ::
    "string \<Rightarrow> nat option \<Rightarrow> string option \<Rightarrow> exn + 'h NewDataPlane ListResponse FetchResult"
  GET_releasebindings ::
    "string \<Rightarrow> string \<Rightarrow> nat option \<Rightarrow> string option
       \<Rightarrow> exn + 'h NewReleaseBinding ListResponse FetchResult"

text \<open>
  \<^verbatim>\<open>fetchAllPages\<close> belongs to the client library: it calls the page callback with
  successive cursors and returns the accumulated items, or throws what the callback
  throws. The service methods take it as a parameter of this type.
\<close>

type_synonym 'a PageFetcher = "(string option \<Rightarrow> exn + 'a ListResponse option) \<Rightarrow> exn + 'a list"

section \<open>openchoreo-ci-backend: PlatformEnvironmentInfoService\<close>

record Environment =
  env_name :: string
  env_namespace :: string
  env_displayName :: string
  env_description :: string
  env_namespaceName :: string
  env_dataPlaneRef :: string
  env_isProduction :: bool
  env_dnsPrefix :: string
  env_createdAt :: string
  env_status :: string

record DataPlane =
  dp_name :: string
  dp_namespace :: "string option"
  dp_displayName :: "string option"
  dp_description :: "string option"
  dp_namespaceName :: string
  dp_imagePullSecretRefs :: "string list option"
  dp_secretStoreRef :: "string option"
  dp_publicVirtualHost :: "string option"
  dp_namespaceVirtualHost :: "string option"
  dp_publicHTTPPort :: "nat option"
  dp_publicHTTPSPort :: "nat option"
  dp_namespaceHTTPPort :: "nat option"
  dp_namespaceHTTPSPort :: "nat option"
  dp_observabilityPlaneRef :: "string option"
  dp_createdAt :: "string option"
  dp_status :: string

record DataPlaneWithEnvironments = DataPlane +
  environments :: "Environment list"

record Component =
  namespaceName :: string
  projectName :: string
  componentName :: string

definition fetchNamespaceNames :: "'h Lib \<Rightarrow> exn + 'h Client \<Rightarrow> string list async" where
  "fetchNamespaceNames lib createOpenChoreoApiClient =
     bindA (awaitA createOpenChoreoApiClient) (\<lambda>client.
     bindA (awaitA (GET_namespaces client)) (\<lambda>res.
       if res_error res \<noteq> None \<or> \<not> ok (res_response res) then
         bindA (logA Error
                  (''Failed to fetch namespaces: '' @ status (res_response res) @ '' ''
                     @ statusText (res_response res)) None)
           (\<lambda>_. returnA [])
       else
         (case chain (res_data res) items of
            None \<Rightarrow> bindA (logA Warn ''No namespaces found'' None) (\<lambda>_. returnA [])
          | Some nss \<Rightarrow>
              returnA
                (List.map_filter (\<lambda>name. if truthy name then name else None)
                   (map (\<lambda>ns. getName lib ns) nss)))))"

definition transformEnvironmentData ::
  "'h Lib \<Rightarrow> 'h NewEnvironment list \<Rightarrow> string \<Rightarrow> Environment list" where
  "transformEnvironmentData lib environmentData nsName =
     map (\<lambda>env.
            let name = str_or (getName lib (res_header env)) [] in
            \<lparr> env_name = name,
              env_namespace = str_or (getNamespace lib (res_header env)) [],
              env_displayName = str_or (getDisplayName lib (res_header env)) name,
              env_description = str_or (getDescription lib (res_header env)) [],
              env_namespaceName = nsName,
              env_dataPlaneRef = str_or (chain (chain (res_spec env) es_dataPlaneRef) ref_name) [],
              env_isProduction = nullish (chain (res_spec env) es_isProduction) False,
              env_dnsPrefix =
                str_or (chain (chain (res_spec env) es_gateway) eg_publicVirtualHost) [],
              env_createdAt = str_or (getCreatedAt lib (res_header env)) [],
              env_status = (if isReady lib (res_header env) then ''Ready'' else ''NotReady'') \<rparr>)
         environmentData"

definition transformDataPlaneData ::
  "'h Lib \<Rightarrow> 'h NewDataPlane list \<Rightarrow> string \<Rightarrow> DataPlane list" where
  "transformDataPlaneData lib dataplaneData nsName =
     map (\<lambda>dp.
            let gateway = chain (res_spec dp) ds_gateway;
                secretStore = chain (res_spec dp) ds_secretStoreRef;
                obsRef = chain (res_spec dp) ds_observabilityPlaneRef in
            \<lparr> dp_name = str_or (getName lib (res_header dp)) [],
              dp_namespace = getNamespace lib (res_header dp),
              dp_displayName = getDisplayName lib (res_header dp),
              dp_description = getDescription lib (res_header dp),
              dp_namespaceName = nsName,
              dp_imagePullSecretRefs = chain (res_spec dp) ds_imagePullSecretRefs,
              dp_secretStoreRef = chain secretStore ref_name,
              dp_publicVirtualHost = chain gateway dg_publicVirtualHost,
              dp_namespaceVirtualHost = chain gateway dg_organizationVirtualHost,
              dp_publicHTTPPort = chain gateway dg_publicHTTPPort,
              dp_publicHTTPSPort = chain gateway dg_publicHTTPSPort,
              dp_namespaceHTTPPort = chain gateway dg_organizationHTTPPort,
              dp_namespaceHTTPSPort = chain gateway dg_organizationHTTPSPort,
              dp_observabilityPlaneRef = chain obsRef ref_name,
              dp_createdAt = getCreatedAt lib (res_header dp),
              dp_status = (if isReady lib (res_header dp) then ''Ready'' else ''NotReady'') \<rparr>)
         dataplaneData"

definition fetchEnvironmentsByNamespace ::
  "'h Lib \<Rightarrow> exn + 'h Client \<Rightarrow> string \<Rightarrow> Environment list async" where
  "fetchEnvironmentsByNamespace lib createOpenChoreoApiClient nsName =
     tryCatch
       (bindA (awaitA createOpenChoreoApiClient) (\<lambda>client.
        bindA (awaitA (GET_environments client nsName)) (\<lambda>res.
          if res_error res \<noteq> None \<or> \<not> ok (res_response res) then
            bindA (logA Error
                     (''Failed to fetch environments for namespace '' @ nsName @ '': ''
                        @ status (res_response res) @ '' '' @ statusText (res_response res)) None)
              (\<lambda>_. returnA [])
          else
            (case chain (res_data res) items of
               None \<Rightarrow>
                 bindA (logA Warn (''No environments found for namespace '' @ nsName) None)
                   (\<lambda>_. returnA [])
             | Some its \<Rightarrow> returnA (transformEnvironmentData lib its nsName)))))
       (\<lambda>error.
          bindA (logA Error (''Error fetching environments for namespace '' @ nsName) (Some error))
            (\<lambda>_. returnA []))"

definition fetchDataplanesByNamespace ::
  "'h Lib \<Rightarrow> exn + 'h Client \<Rightarrow> string \<Rightarrow> DataPlane list async" where
  "fetchDataplanesByNamespace lib createOpenChoreoApiClient nsName =
     tryCatch
       (bindA (awaitA createOpenChoreoApiClient) (\<lambda>client.
        bindA (awaitA (GET_dataplanes client nsName None None)) (\<lambda>res.
          if res_error res \<noteq> None \<or> \<not> ok (res_response res) then
            bindA (logA Error
                     (''Failed to fetch dataplanes for namespace '' @ nsName @ '': ''
                        @ status (res_response res) @ '' '' @ statusText (res_response res)) None)
              (\<lambda>_. returnA [])
          else
            (case chain (res_data res) items of
               None \<Rightarrow>
                 bindA (logA Warn (''No dataplanes found for namespace '' @ nsName) None)
                   (\<lambda>_. returnA [])
             | Some its \<Rightarrow> returnA (transformDataPlaneData lib its nsName)))))
       (\<lambda>error.
          bindA (logA Error (''Error fetching dataplanes for namespace '' @ nsName) (Some error))
            (\<lambda>_. returnA []))"

definition fetchAllEnvironments :: "'h Lib \<Rightarrow> exn + 'h Client \<Rightarrow> Environment list async" where
  "fetchAllEnvironments lib createOpenChoreoApiClient =
     tryCatch
       (bindA (fetchNamespaceNames lib createOpenChoreoApiClient) (\<lambda>namespaces.
        bindA (allA (map (\<lambda>ns. fetchEnvironmentsByNamespace lib createOpenChoreoApiClient ns)
                       namespaces)) (\<lambda>results.
        returnA (concat results))))
       (\<lambda>error.
          bindA (logA Error ''Error fetching platform environments'' (Some error))
            (\<lambda>_. returnA []))"

definition fetchAllDataplanes :: "'h Lib \<Rightarrow> exn + 'h Client \<Rightarrow> DataPlane list async" where
  "fetchAllDataplanes lib createOpenChoreoApiClient =
     tryCatch
       (bindA (fetchNamespaceNames lib createOpenChoreoApiClient) (\<lambda>namespaces.
        bindA (allA (map (\<lambda>ns. fetchDataplanesByNamespace lib createOpenChoreoApiClient ns)
                       namespaces)) (\<lambda>results.
        returnA (concat results))))
       (\<lambda>error.
          bindA (logA Error ''Error fetching platform dataplanes'' (Some error))
            (\<lambda>_. returnA []))"

text \<open>
  The grouping inside \<^verbatim>\<open>fetchDataplanesWithEnvironments\<close>: for each environment, the
  key's array is created when missing, then read back and extended in place. Reading a
  missing key and pushing to it would throw a \<^verbatim>\<open>TypeError\<close>.
\<close>

definition groupEnvironment ::
  "Environment list JsMap \<Rightarrow> Environment \<Rightarrow> exn + Environment list JsMap" where
  "groupEnvironment environmentsByDataPlane env =
     (let key = env_namespaceName env @ ''/'' @ env_dataPlaneRef env;
          m = (if \<not> Map_has environmentsByDataPlane key
               then Map_set environmentsByDataPlane key []
               else environmentsByDataPlane)
      in case Map_get m key of
           None \<Rightarrow> Inl (Exn ''TypeError'')
         | Some arr \<Rightarrow> Inr (Map_set m key (arr @ [env])))"

fun groupEnvironments ::
  "Environment list JsMap \<Rightarrow> Environment list \<Rightarrow> exn + Environment list JsMap" where
  \<comment> \<open>\<^verbatim>\<open>environments.forEach(env => ...)\<close>\<close>
  "groupEnvironments m [] = Inr m"
| "groupEnvironments m (env # envs) =
     (case groupEnvironment m env of
        Inl e \<Rightarrow> Inl e
      | Inr m' \<Rightarrow> groupEnvironments m' envs)"

text \<open>
  The two listings are awaited together; neither throws, so their order only decides the
  order of their log entries.
\<close>

definition fetchDataplanesWithEnvironments ::
  "'h Lib \<Rightarrow> exn + 'h Client \<Rightarrow> DataPlaneWithEnvironments list async" where
  "fetchDataplanesWithEnvironments lib createOpenChoreoApiClient =
     tryCatch
       (bindA (fetchAllDataplanes lib createOpenChoreoApiClient) (\<lambda>dataplanes.
        bindA (fetchAllEnvironments lib createOpenChoreoApiClient) (\<lambda>envs.
        bindA (awaitA (groupEnvironments [] envs)) (\<lambda>environmentsByDataPlane.
        returnA
          (map (\<lambda>dataplane.
                  DataPlane.extend dataplane
                    (DataPlaneWithEnvironments.fields
                       (nullish
                          (Map_get environmentsByDataPlane
                             (dp_namespaceName dataplane @ ''/'' @ dp_name dataplane))
                          [])))
             dataplanes)))))
       (\<lambda>error.
          bindA (logA Error ''Error fetching dataplanes with environments'' (Some error))
            (\<lambda>_. returnA []))"

text \<open>The page callback both counting methods hand to \<^verbatim>\<open>fetchAllPages\<close>.\<close>

definition releaseBindingsPage ::
  "'h Client \<Rightarrow> Component \<Rightarrow> string option \<Rightarrow> exn + 'h NewReleaseBinding ListResponse option"
  where
  "releaseBindingsPage client component cursor =
     (case GET_releasebindings client (namespaceName component) (componentName component)
             None cursor of
        Inl e \<Rightarrow> Inl e
      | Inr res \<Rightarrow>
          if res_error res \<noteq> None then Inl (Exn ''Failed to fetch release bindings'')
          else Inr (res_data res))"

definition bindingsWarning :: "Component \<Rightarrow> exn \<Rightarrow> log_entry" where
  "bindingsWarning component error =
     Log Warn
       (''Failed to fetch bindings for component '' @ namespaceName component @ ''/''
          @ projectName component @ ''/'' @ componentName component @ '':'')
       (Some error)"

definition countBinding :: "Component \<Rightarrow> nat JsMap \<Rightarrow> 'h NewReleaseBinding \<Rightarrow> nat JsMap" where
  \<comment> \<open>the body of \<^verbatim>\<open>bindings.forEach\<close>\<close>
  "countBinding component componentCountsByEnvironment binding =
     (let envName = chain (res_spec binding) rb_environment in
      case envName of
        None \<Rightarrow> componentCountsByEnvironment
      | Some e \<Rightarrow>
          if e \<noteq> [] then
            (let key = namespaceName component @ ''/'' @ e;
                 currentCount = num_or (Map_get componentCountsByEnvironment key) 0
             in Map_set componentCountsByEnvironment key (currentCount + 1))
          else componentCountsByEnvironment)"

definition countComponent ::
  "'h NewReleaseBinding PageFetcher \<Rightarrow> 'h Client \<Rightarrow> nat JsMap \<Rightarrow> Component \<Rightarrow> nat JsMap async"
  where
  \<comment> \<open>one callback of \<^verbatim>\<open>batch.map(async component => ...)\<close>, on the shared map\<close>
  "countComponent fetchAllPages client componentCountsByEnvironment component =
     tryCatch
       (bindA (awaitA (fetchAllPages (releaseBindingsPage client component))) (\<lambda>bindings.
        returnA (foldl (countBinding component) componentCountsByEnvironment bindings)))
       (\<lambda>error.
          (Inr componentCountsByEnvironment, [bindingsWarning component error]))"

function countBatches ::
  "'h NewReleaseBinding PageFetcher \<Rightarrow> 'h Client \<Rightarrow> Component list \<Rightarrow> nat \<Rightarrow> nat JsMap
     \<Rightarrow> nat JsMap async" where
  \<comment> \<open>\<^verbatim>\<open>for (let i = 0; i < components.length; i += batchSize)\<close> with \<open>batchSize = 10\<close>\<close>
  "countBatches fetchAllPages client components i m =
     (if i < length components then
        bindA (foldA (countComponent fetchAllPages client) m (slice components i (i + 10)))
          (\<lambda>m'. countBatches fetchAllPages client components (i + 10) m')
      else returnA m)"
  by pat_completeness auto
termination
  by (relation "measure (\<lambda>(fetchAllPages, client, components, i, m). length components - i)") auto

text \<open>
  The handler of the outer \<^verbatim>\<open>try\<close> returns the shared map as it stands. The one
  statement there that can throw, the creation of the client, precedes every update, so
  the map is still empty when the handler runs.
\<close>

definition fetchComponentCountsPerEnvironment ::
  "'h NewReleaseBinding PageFetcher \<Rightarrow> exn + 'h Client \<Rightarrow> Component list \<Rightarrow> nat JsMap async"
  where
  "fetchComponentCountsPerEnvironment fetchAllPages createOpenChoreoApiClient components =
     tryCatch
       (bindA (awaitA createOpenChoreoApiClient) (\<lambda>client.
        countBatches fetchAllPages client components 0 []))
       (\<lambda>error.
          bindA (logA Error ''Error fetching component counts'' (Some error))
            (\<lambda>_. returnA []))"

definition healthyComponent ::
  "'h Lib \<Rightarrow> 'h NewReleaseBinding PageFetcher \<Rightarrow> 'h Client \<Rightarrow> Component \<Rightarrow> nat async" where
  \<comment> \<open>one callback of \<^verbatim>\<open>batch.map(async component => ...)\<close>\<close>
  "healthyComponent lib fetchAllPages client component =
     tryCatch
       (bindA (awaitA (fetchAllPages (releaseBindingsPage client component))) (\<lambda>bindings.
        returnA (length (filter (\<lambda>binding. isReady lib (res_header binding)) bindings))))
       (\<lambda>error. (Inr 0, [bindingsWarning component error]))"

function healthyBatches ::
  "'h Lib \<Rightarrow> 'h NewReleaseBinding PageFetcher \<Rightarrow> 'h Client \<Rightarrow> Component list \<Rightarrow> nat \<Rightarrow> nat
     \<Rightarrow> nat async" where
  "healthyBatches lib fetchAllPages client components i healthyWorkloadCount =
     (if i < length components then
        bindA (allA (map (healthyComponent lib fetchAllPages client)
                       (slice components i (i + 10))))
          (\<lambda>batchCounts.
             healthyBatches lib fetchAllPages client components (i + 10)
               (healthyWorkloadCount + foldl (\<lambda>sum count. sum + count) 0 batchCounts))
      else returnA healthyWorkloadCount)"
  by pat_completeness auto
termination
  by (relation "measure (\<lambda>(lib, fetchAllPages, client, components, i, n). length components - i)")
     auto

definition fetchHealthyWorkloadCount ::
  "'h Lib \<Rightarrow> 'h NewReleaseBinding PageFetcher \<Rightarrow> exn + 'h Client \<Rightarrow> Component list \<Rightarrow> nat async"
  where
  "fetchHealthyWorkloadCount lib fetchAllPages createOpenChoreoApiClient components =
     tryCatch
       (bindA (awaitA createOpenChoreoApiClient) (\<lambda>client.
        healthyBatches lib fetchAllPages client components 0 0))
       (\<lambda>error.
          bindA (logA Error ''Error fetching healthy workload count'' (Some error))
            (\<lambda>_. returnA 0))"

declare countBatches.simps [simp del] healthyBatches.simps [simp del]

section \<open>openchoreo-backend: DataPlaneInfoService\<close>

text \<open>
  \<^verbatim>\<open>transformDataPlane\<close> lives in the transformers module and is a parameter, as is the
  type \<open>'r\<close> of the response rows.
\<close>

definition dataPlanesPage ::
  "'h Client \<Rightarrow> string \<Rightarrow> string option \<Rightarrow> exn + 'h NewDataPlane ListResponse option" where
  "dataPlanesPage client nsName cursor =
     (case GET_dataplanes client nsName (Some 100) cursor of
        Inl e \<Rightarrow> Inl e
      | Inr res \<Rightarrow>
          if res_error res \<noteq> None then
            Inl (Exn (''Failed to list data planes: '' @ status (res_response res) @ '' ''
                        @ statusText (res_response res)))
          else Inr (res_data res))"

definition listDataPlanes ::
  "('h NewDataPlane \<Rightarrow> 'r) \<Rightarrow> 'h NewDataPlane PageFetcher \<Rightarrow> exn + 'h Client \<Rightarrow> string
     \<Rightarrow> 'r list async" where
  "listDataPlanes transformDataPlane fetchAllPages createOpenChoreoApiClient nsName =
     tryCatch
       (bindA (awaitA createOpenChoreoApiClient) (\<lambda>client.
        bindA (awaitA (fetchAllPages (dataPlanesPage client nsName))) (\<lambda>allDataPlanes.
        returnA (map transformDataPlane allDataPlanes))))
       (\<lambda>error.
          bindA (logA Error (''Error listing data planes for '' @ nsName) (Some error))
            (\<lambda>_. (Inl error, [])))"

section \<open>The paginated listings of the other services\<close>

text \<open>
  The list paths these services request, beside those of \<open>Client\<close>; the workflow runs
  come typed as above. Where an error entry interpolates the caught error into its
  text, the entry carries the error itself and its text ends before it.
\<close>

record ('h, 'p) ListClient =
  GET_traits :: "string \<Rightarrow> nat option \<Rightarrow> string option \<Rightarrow> exn + 'h ListResponse FetchResult"
  GET_workflowruns ::
    "string \<Rightarrow> nat option \<Rightarrow> string option \<Rightarrow> exn + 'p WorkflowRun ListResponse FetchResult"
  GET_namespaces_page :: "nat option \<Rightarrow> string option \<Rightarrow> exn + 'h ListResponse FetchResult"
  GET_projects :: "string \<Rightarrow> nat option \<Rightarrow> string option \<Rightarrow> exn + 'h ListResponse FetchResult"
  GET_components ::
    "string \<Rightarrow> string \<Rightarrow> nat option \<Rightarrow> string option \<Rightarrow> exn + 'h ListResponse FetchResult"

subsection \<open>openchoreo-backend: TraitInfoService\<close>




definition traitsPage ::
  "('h, 'p) ListClient \<Rightarrow> string \<Rightarrow> string option \<Rightarrow> exn + 'h ListResponse option" where
  "traitsPage client nsName cursor =
     (case GET_traits client nsName (Some 100) cursor of
        Inl e \<Rightarrow> Inl e
      | Inr res \<Rightarrow>
          if res_error res \<noteq> None then
            Inl (Exn (''Failed to fetch traits: '' @ status (res_response res) @ '' ''
                        @ statusText (res_response res)))
          else Inr (res_data res))"


subsection \<open>openchoreo-backend: BuildInfoService, and openchoreo-ci-backend: WorkflowService\<close>





subsection \<open>AuthzService: the hierarchy listings\<close>









section \<open>Pagination\<close>



section \<open>Vocabulary of the aggregation claims\<close>

definition compositeKey :: "string \<Rightarrow> string \<Rightarrow> string" where
  "compositeKey ns secondaryName = ns @ ''/'' @ secondaryName"

definition environmentKey :: "Environment \<Rightarrow> string" where
  "environmentKey env = compositeKey (env_namespaceName env) (env_dataPlaneRef env)"

definition hasEnvironment :: "'h NewReleaseBinding \<Rightarrow> bool" where
  \<comment> \<open>the binding names an environment: \<^verbatim>\<open>spec.environment\<close> is present and not empty\<close>
  "hasEnvironment binding =
     (case res_spec binding of
        None \<Rightarrow> False
      | Some sp \<Rightarrow> (case rb_environment sp of None \<Rightarrow> False | Some e \<Rightarrow> e \<noteq> []))"

definition environmentOf :: "'h NewReleaseBinding \<Rightarrow> string" where
  "environmentOf binding =
     (case res_spec binding of
        None \<Rightarrow> []
      | Some sp \<Rightarrow> (case rb_environment sp of None \<Rightarrow> [] | Some e \<Rightarrow> e))"

definition bindingKey :: "Component \<times> 'h NewReleaseBinding \<Rightarrow> string" where
  "bindingKey cb = compositeKey (namespaceName (fst cb)) (environmentOf (snd cb))"

definition fetchSucceeds ::
  "'h NewReleaseBinding PageFetcher \<Rightarrow> 'h Client \<Rightarrow> Component \<Rightarrow> bool" where
  "fetchSucceeds fetchAllPages client component =
     (case fetchAllPages (releaseBindingsPage client component) of
        Inl e \<Rightarrow> False | Inr bindings \<Rightarrow> True)"

definition bindingsOf ::
  "'h NewReleaseBinding PageFetcher \<Rightarrow> 'h Client \<Rightarrow> Component \<Rightarrow> 'h NewReleaseBinding list"
  where
  \<comment> \<open>the bindings a component's fetch returned; none when it failed\<close>
  "bindingsOf fetchAllPages client component =
     (case fetchAllPages (releaseBindingsPage client component) of
        Inl e \<Rightarrow> [] | Inr bindings \<Rightarrow> bindings)"

definition fetchedBindings ::
  "'h NewReleaseBinding PageFetcher \<Rightarrow> 'h Client \<Rightarrow> Component list
     \<Rightarrow> (Component \<times> 'h NewReleaseBinding) list" where
  \<comment> \<open>every binding processed, with the component it was fetched for\<close>
  "fetchedBindings fetchAllPages client components =
     concat (map (\<lambda>c. map (Pair c) (bindingsOf fetchAllPages client c)) components)"

definition failureWarnings ::
  "'h NewReleaseBinding PageFetcher \<Rightarrow> 'h Client \<Rightarrow> Component list \<Rightarrow> log_entry list" where
  \<comment> \<open>one warning for each component whose fetch failed\<close>
  "failureWarnings fetchAllPages client components =
     concat (map (\<lambda>c. case fetchAllPages (releaseBindingsPage client c) of
                         Inl e \<Rightarrow> [bindingsWarning c e] | Inr bindings \<Rightarrow> [])
               components)"

definition sumValues :: "nat JsMap \<Rightarrow> nat" where
  "sumValues m = sum_list (map snd m)"

definition countOf :: "('a \<Rightarrow> bool) \<Rightarrow> 'a list \<Rightarrow> nat" where
  "countOf p xs = length (filter p xs)"

section \<open>Vocabulary of the failure claims\<close>













section \<open>A sample platform\<close>

text \<open>
  Modelled from the spec: the paginated-fetch collaborator of section 6
  (\<^verbatim>\<open>fetchPage(cursor) -> {items, nextCursor}\<close>, exhausted when \<^verbatim>\<open>nextCursor\<close> is absent),
  which is not part of the sources, on listings that fit one page: the first page is
  requested without cursor and its items are the result. It serves the sample platform
  only, whose pages carry no next cursor.
\<close>

definition fetchFirstPage :: "'a PageFetcher" where
  "fetchFirstPage fetchPage =
     (case fetchPage None of
        Inl e \<Rightarrow> Inl e
      | Inr None \<Rightarrow> Inl (Exn ''TypeError'')
      | Inr (Some page) \<Rightarrow> Inr (nullish (items page) []))"

record SampleHeader =
  h_name :: string
  h_ready :: bool

definition sampleLib :: "SampleHeader Lib" where
  "sampleLib =
     \<lparr> getName = (\<lambda>h. Some (h_name h)),
       getNamespace = (\<lambda>h. None),
       getDisplayName = (\<lambda>h. None),
       getDescription = (\<lambda>h. None),
       getCreatedAt = (\<lambda>h. None),
       isReady = h_ready \<rparr>"

definition listed :: "'a list \<Rightarrow> exn + 'a ListResponse FetchResult" where
  \<comment> \<open>a 200 response with one page of items\<close>
  "listed xs =
     Inr \<lparr> res_data = Some \<lparr> items = Some xs, nextCursor = None \<rparr>,
           res_error = None,
           res_response = \<lparr> ok = True, status = ''200'', statusText = ''OK'' \<rparr> \<rparr>"

definition unavailable :: "exn + 'a ListResponse FetchResult" where
  \<comment> \<open>a 503 response with an error body\<close>
  "unavailable =
     Inr \<lparr> res_data = None,
           res_error = Some (ApiError ''unavailable''),
           res_response = \<lparr> ok = False, status = ''503'', statusText = ''Service Unavailable'' \<rparr> \<rparr>"

definition named :: "string \<Rightarrow> bool \<Rightarrow> SampleHeader" where
  "named n r = \<lparr> h_name = n, h_ready = r \<rparr>"

definition sampleEnvironment :: "string \<Rightarrow> string option \<Rightarrow> SampleHeader NewEnvironment" where
  "sampleEnvironment n dataPlane =
     \<lparr> res_header = named n True,
       res_spec = Some \<lparr> es_dataPlaneRef = Some \<lparr> ref_kind = None, ref_name = dataPlane \<rparr>,
                         es_isProduction = None,
                         es_gateway = None \<rparr> \<rparr>"

definition sampleDataPlane :: "string \<Rightarrow> SampleHeader NewDataPlane" where
  "sampleDataPlane n = \<lparr> res_header = named n True, res_spec = None \<rparr>"

definition sampleBinding :: "string \<Rightarrow> bool \<Rightarrow> string option \<Rightarrow> SampleHeader NewReleaseBinding"
  where
  "sampleBinding n ready environment =
     \<lparr> res_header = named n ready, res_spec = Some \<lparr> rb_environment = environment \<rparr> \<rparr>"

definition sampleComponent :: "string \<Rightarrow> Component" where
  "sampleComponent n = \<lparr> namespaceName = ''acme'', projectName = ''shop'', componentName = n \<rparr>"

text \<open>
  Two namespaces, each with a data plane named \<open>default\<close>; the data planes of \<open>beta\<close>
  cannot be listed. Component \<open>web\<close> has four bindings, one without an environment and
  one with an empty one; the bindings of \<open>api\<close> are refused and the request for those
  of \<open>jobs\<close> throws.
\<close>

definition sampleClient :: "SampleHeader Client" where
  "sampleClient =
     \<lparr> GET_namespaces = listed [named ''acme'' True, named ''beta'' True],
       GET_environments =
         (\<lambda>ns. if ns = ''acme''
                then listed [sampleEnvironment ''dev'' (Some ''default''),
                             sampleEnvironment ''lab'' None,
                             sampleEnvironment ''prod'' (Some ''default'')]
                else listed [sampleEnvironment ''dev'' (Some ''default'')]),
       GET_dataplanes =
         (\<lambda>ns limit cursor. if ns = ''acme'' then listed [sampleDataPlane ''default'']
                             else unavailable),
       GET_releasebindings =
         (\<lambda>ns component limit cursor.
            if component = ''web''
            then listed [sampleBinding ''web-dev'' True (Some ''dev''),
                         sampleBinding ''web-dev-2'' False (Some ''dev''),
                         sampleBinding ''web-none'' True None,
                         sampleBinding ''web-empty'' True (Some [])]
            else if component = ''cart''
            then listed [sampleBinding ''cart-dev'' True (Some ''dev''),
                         sampleBinding ''cart-prod'' True (Some ''prod'')]
            else if component = ''api'' then unavailable
            else Inl (Exn ''ECONNRESET'')) \<rparr>"

definition sampleEnv :: "string \<Rightarrow> string \<Rightarrow> string \<Rightarrow> Environment" where
  "sampleEnv ns n dataPlane =
     \<lparr> env_name = n, env_namespace = [], env_displayName = n, env_description = [],
       env_namespaceName = ns, env_dataPlaneRef = dataPlane, env_isProduction = False,
       env_dnsPrefix = [], env_createdAt = [], env_status = ''Ready'' \<rparr>"

definition sampleEnvironments :: "Environment list" where
  "sampleEnvironments =
     [sampleEnv ''acme'' ''dev'' ''default'', sampleEnv ''acme'' ''lab'' [],
      sampleEnv ''acme'' ''prod'' ''default'', sampleEnv ''beta'' ''dev'' ''default'']"

definition sampleComponents :: "Component list" where
  "sampleComponents = map sampleComponent [''web'', ''api'', ''cart'', ''jobs'']"

definition twelveComponents :: "Component list" where
  \<comment> \<open>more than one batch, with one failing fetch among the first ten\<close>
  "twelveComponents =
     replicate 9 (sampleComponent ''web'')
       @ [sampleComponent ''api'', sampleComponent ''cart'', sampleComponent ''cart'']"


definition unauthorized :: "exn + 'a ListResponse FetchResult" where
  \<comment> \<open>a 401 response with an empty body: not ok, and no error reported\<close>
  "unauthorized =
     Inr \<lparr> res_data = None,
           res_error = None,
           res_response = \<lparr> ok = False, status = ''401'', statusText = ''Unauthorized'' \<rparr> \<rparr>"



section \<open>Status derivation: both implementations follow the rules\<close>

lemma find_firstReady: "find (\<lambda>c. cond_type c = Some ''Ready'') cs = firstReady cs"
  by (induction cs) simp_all

lemma truthy_completedAt: "chain (run_status run) st_completedAt = completedAtOf run"
  by (simp add: chain_def completedAtOf_def)

lemma truthy_startedAt: "chain (run_status run) st_startedAt = startedAtOf run"
  by (simp add: chain_def startedAtOf_def)

lemma tasks_tasksOf: "nullish (chain (run_status run) st_tasks) [] = tasksOf run"
  by (simp add: nullish_def chain_def tasksOf_def split: option.splits)

lemma ready_ci:
  "find (\<lambda>c. cond_type c = Some ''Ready'') (nullish (chain (run_status run) st_conditions) [])
     = readyConditionOf run"
  by (simp add: nullish_def chain_def readyConditionOf_def find_firstReady split: option.splits)

lemma ready_tr:
  "chain (chain (run_status run) st_conditions) (find (\<lambda>c. cond_type c = Some ''Ready''))
     = readyConditionOf run"
  by (simp add: chain_def readyConditionOf_def find_firstReady split: option.splits)

lemma reason_chain: "chain (readyConditionOf run) cond_reason = readyReasonOf run"
  by (simp add: chain_def readyReasonOf_def)

lemma some_failed:
  "some (\<lambda>t. task_phase t = Some ''Failed'' \<or> task_phase t = Some ''Error'') ts = anyFailedTask ts"
  by (auto simp: some_def list_ex_iff anyFailedTask_def anyTask_def)

lemma some_running: "some (\<lambda>t. task_phase t = Some ''Running'') ts = anyTask ''Running'' ts"
  by (simp add: some_def list_ex_iff anyTask_def)

lemma every_succeeded_ci:
  "(every (\<lambda>t. task_phase t = Some ''Succeeded'') ts \<and> length ts > 0) = allTasksSucceeded ts"
  by (auto simp: every_def list_all_iff allTasksSucceeded_def)

lemma every_succeeded_tr:
  "(length ts > 0 \<and> every (\<lambda>t. task_phase t = Some ''Succeeded'') ts) = allTasksSucceeded ts"
  by (auto simp: every_def list_all_iff allTasksSucceeded_def)

lemma str_or_cases:
  "str_or a d = (case a of Some r \<Rightarrow> if r \<noteq> [] then r else d | None \<Rightarrow> d)"
  by (simp add: str_or_def)

lemma ci_deriveStatus: "deriveWorkflowRunStatus run = deriveStatus run"
  unfolding deriveWorkflowRunStatus_def Let_def deriveStatus_def
  by (simp only: truthy_completedAt truthy_startedAt tasks_tasksOf ready_ci reason_chain some_failed some_running every_succeeded_ci str_or_cases)

lemma tr_deriveStatus: "resp_status (transformComponentWorkflowRun run) = deriveStatus run"
  unfolding transformComponentWorkflowRun_def Let_def deriveStatus_def
  apply (simp only: truthy_completedAt truthy_startedAt tasks_tasksOf ready_tr reason_chain some_failed some_running every_succeeded_tr str_or_cases)
  apply (simp split: option.splits)
  done

lemma statusIs_deriveStatus: "statusIs run s = (deriveStatus run = s)"
  by (simp add: statusIs_def ci_deriveStatus tr_deriveStatus)

lemmas sample_defs = mkRun_def mkTask_def mkCondition_def completedAtOf_def startedAtOf_def
  tasksOf_def readyConditionOf_def readyReasonOf_def truthy_def anyFailedTask_def anyTask_def
  allTasksSucceeded_def

text \<open>
  C1. A run whose \<open>completedAt\<close> is set (present and not empty, which is what the code
  tests) is labelled \<open>Failed\<close> when a task has phase \<open>Failed\<close> or \<open>Error\<close>, whatever the
  conditions say; otherwise with the reason of the Ready condition when that reason is
  present and is neither \<open>Running\<close> nor \<open>Pending\<close>; otherwise \<open>Succeeded\<close>. In particular a
  completed run with a Ready reason \<open>Running\<close> and only \<open>Succeeded\<close> tasks is \<open>Succeeded\<close>.
  Both implementations do so.
\<close>

theorem C1_completed_run:
  assumes "truthy (completedAtOf run)"
  shows
    "(anyFailedTask (tasksOf run) \<longrightarrow> statusIs run ''Failed'')
   \<and> (\<not> anyFailedTask (tasksOf run) \<longrightarrow>
        (\<forall>r. readyReasonOf run = Some r \<and> r \<noteq> [] \<and> r \<noteq> ''Running'' \<and> r \<noteq> ''Pending''
             \<longrightarrow> statusIs run r))
   \<and> (\<not> anyFailedTask (tasksOf run)
        \<and> \<not> (\<exists>r. readyReasonOf run = Some r \<and> r \<noteq> [] \<and> r \<noteq> ''Running'' \<and> r \<noteq> ''Pending'')
        \<longrightarrow> statusIs run ''Succeeded'')
   \<and> (readyReasonOf run = Some ''Running''
        \<and> (\<forall>t \<in> set (tasksOf run). task_phase t = Some ''Succeeded'')
        \<longrightarrow> statusIs run ''Succeeded'')"
  using assms
  by (auto simp: statusIs_deriveStatus deriveStatus_def anyFailedTask_def anyTask_def
           split: option.splits)

theorem C1_completed_run_witness:
  "truthy (completedAtOf staleRunningRun) \<and> statusIs staleRunningRun ''Succeeded''
   \<and> truthy (completedAtOf cancelledRun) \<and> statusIs cancelledRun ''Cancelled''
   \<and> truthy (completedAtOf failedTaskRun) \<and> statusIs failedTaskRun ''Failed''"
proof -
  have a: "truthy (completedAtOf staleRunningRun)"
    and b: "truthy (completedAtOf cancelledRun)"
    and c: "truthy (completedAtOf failedTaskRun)"
    by (simp_all add: staleRunningRun_def cancelledRun_def failedTaskRun_def sample_defs)
  have "statusIs staleRunningRun ''Succeeded''"
    using C1_completed_run [OF a] by (simp add: staleRunningRun_def sample_defs)
  moreover have "statusIs cancelledRun ''Cancelled''"
    using C1_completed_run [OF b] by (simp add: cancelledRun_def sample_defs)
  moreover have "statusIs failedTaskRun ''Failed''"
    using C1_completed_run [OF c] by (simp add: failedTaskRun_def sample_defs)
  ultimately show ?thesis using a b c by simp
qed

lemma deriveStatus_ready:
  assumes "\<not> truthy (completedAtOf run)" and "readyConditionOf run = Some rc"
  shows "deriveStatus run =
     (case cond_reason rc of
        Some r \<Rightarrow>
          if r \<noteq> [] then r
          else if cond_status rc = Some ''True'' then ''Succeeded'' else ''Running''
      | None \<Rightarrow> if cond_status rc = Some ''True'' then ''Succeeded'' else ''Running'')"
  using assms by (simp add: deriveStatus_def)

lemma update_tasks_startedAt:
  assumes "run_status run = Some st"
  shows "completedAtOf (run\<lparr>run_status := Some (st\<lparr>st_tasks := ts, st_startedAt := sa\<rparr>)\<rparr>)
           = completedAtOf run"
    and "readyConditionOf (run\<lparr>run_status := Some (st\<lparr>st_tasks := ts, st_startedAt := sa\<rparr>)\<rparr>)
           = readyConditionOf run"
  using assms by (simp_all add: completedAtOf_def readyConditionOf_def)

text \<open>
  C2. A run without \<open>completedAt\<close> that has a Ready condition is labelled with that
  condition's reason when present, otherwise \<open>Succeeded\<close> when the condition's status is
  \<open>True\<close> and \<open>Running\<close> when it is not; replacing the tasks and \<open>startedAt\<close> by anything
  else does not change the label.
\<close>

theorem C2_ready_condition:
  assumes "\<not> truthy (completedAtOf run)" and "readyConditionOf run = Some rc"
  shows
    "(\<forall>r. cond_reason rc = Some r \<and> r \<noteq> [] \<longrightarrow> statusIs run r)
   \<and> (\<not> truthy (cond_reason rc) \<and> cond_status rc = Some ''True''
        \<longrightarrow> statusIs run ''Succeeded'')
   \<and> (\<not> truthy (cond_reason rc) \<and> cond_status rc \<noteq> Some ''True''
        \<longrightarrow> statusIs run ''Running'')
   \<and> (\<forall>st ts sa. run_status run = Some st \<longrightarrow>
        deriveWorkflowRunStatus (run\<lparr>run_status := Some (st\<lparr>st_tasks := ts, st_startedAt := sa\<rparr>)\<rparr>)
          = deriveWorkflowRunStatus run
        \<and> resp_status (transformComponentWorkflowRun
             (run\<lparr>run_status := Some (st\<lparr>st_tasks := ts, st_startedAt := sa\<rparr>)\<rparr>))
          = resp_status (transformComponentWorkflowRun run))"
proof -
  note d = deriveStatus_ready [OF assms]
  have "\<forall>r. cond_reason rc = Some r \<and> r \<noteq> [] \<longrightarrow> statusIs run r"
    by (simp add: statusIs_deriveStatus d)
  moreover have "\<not> truthy (cond_reason rc) \<and> cond_status rc = Some ''True''
        \<longrightarrow> statusIs run ''Succeeded''"
    by (simp add: statusIs_deriveStatus d truthy_def split: option.splits)
  moreover have "\<not> truthy (cond_reason rc) \<and> cond_status rc \<noteq> Some ''True''
        \<longrightarrow> statusIs run ''Running''"
    by (simp add: statusIs_deriveStatus d truthy_def split: option.splits)
  moreover have "deriveStatus (run\<lparr>run_status := Some (st\<lparr>st_tasks := ts, st_startedAt := sa\<rparr>)\<rparr>)
          = deriveStatus run" if st: "run_status run = Some st" for st ts sa
  proof -
    have "\<not> truthy (completedAtOf
             (run\<lparr>run_status := Some (st\<lparr>st_tasks := ts, st_startedAt := sa\<rparr>)\<rparr>))"
      and "readyConditionOf
             (run\<lparr>run_status := Some (st\<lparr>st_tasks := ts, st_startedAt := sa\<rparr>)\<rparr>) = Some rc"
      using assms by (simp_all add: update_tasks_startedAt [OF st])
    from deriveStatus_ready [OF this] show ?thesis by (simp only: d)
  qed
  ultimately show ?thesis
    by (simp only: ci_deriveStatus tr_deriveStatus) blast
qed

theorem C2_ready_condition_witness:
  "\<not> truthy (completedAtOf pendingConditionRun)
   \<and> readyConditionOf pendingConditionRun = Some (mkCondition ''Ready'' ''False'' (Some ''Pending''))
   \<and> statusIs pendingConditionRun ''Pending''
   \<and> \<not> truthy (completedAtOf readyTrueRun)
   \<and> readyConditionOf readyTrueRun = Some (mkCondition ''Ready'' ''True'' None)
   \<and> statusIs readyTrueRun ''Succeeded''"
proof -
  have a: "\<not> truthy (completedAtOf pendingConditionRun)"
    and b: "readyConditionOf pendingConditionRun
              = Some (mkCondition ''Ready'' ''False'' (Some ''Pending''))"
    by (simp_all add: pendingConditionRun_def sample_defs)
  have c: "\<not> truthy (completedAtOf readyTrueRun)"
    and d: "readyConditionOf readyTrueRun = Some (mkCondition ''Ready'' ''True'' None)"
    by (simp_all add: readyTrueRun_def sample_defs)
  have "statusIs pendingConditionRun ''Pending''"
    using C2_ready_condition [OF a b] by (simp add: mkCondition_def)
  moreover have "statusIs readyTrueRun ''Succeeded''"
    using C2_ready_condition [OF c d] by (simp add: mkCondition_def truthy_def)
  ultimately show ?thesis using a b c d by simp
qed

text \<open>
  C3. A run without \<open>completedAt\<close> and without Ready condition falls back, in this order,
  to: \<open>Failed\<close> when a task has phase \<open>Failed\<close> or \<open>Error\<close>; \<open>Succeeded\<close> when there are
  tasks and all have phase \<open>Succeeded\<close>; \<open>Running\<close> when a task has phase \<open>Running\<close>;
  \<open>Running\<close> when \<open>startedAt\<close> is set; \<open>Pending\<close>. In particular a run with no tasks and
  no \<open>startedAt\<close> is \<open>Pending\<close>.
\<close>

theorem C3_fallback_order:
  assumes "\<not> truthy (completedAtOf run)" and "readyConditionOf run = None"
  shows
    "statusIs run
       (if anyFailedTask (tasksOf run) then ''Failed''
        else if allTasksSucceeded (tasksOf run) then ''Succeeded''
        else if anyTask ''Running'' (tasksOf run) then ''Running''
        else if truthy (startedAtOf run) then ''Running''
        else ''Pending'')
   \<and> (tasksOf run = [] \<and> \<not> truthy (startedAtOf run) \<longrightarrow> statusIs run ''Pending'')"
  using assms
  by (auto simp: statusIs_deriveStatus deriveStatus_def anyFailedTask_def anyTask_def
                 allTasksSucceeded_def)

theorem C3_fallback_order_witness:
  "\<not> truthy (completedAtOf (tasksOnlyRun [] None))
   \<and> readyConditionOf (tasksOnlyRun [] None) = None
   \<and> statusIs (tasksOnlyRun [] None) ''Pending''
   \<and> statusIs (tasksOnlyRun [] (Some ''2024-01-01T00:00:00Z'')) ''Running''
   \<and> statusIs (tasksOnlyRun [''Succeeded'', ''Succeeded''] None) ''Succeeded''
   \<and> statusIs (tasksOnlyRun [''Succeeded'', ''Running''] None) ''Running''
   \<and> statusIs (tasksOnlyRun [''Running'', ''Error''] None) ''Failed''
   \<and> statusIs (tasksOnlyRun [''Succeeded'', ''Pending''] None) ''Pending''"
proof -
  have a: "\<not> truthy (completedAtOf (tasksOnlyRun ps sa))"
    and b: "readyConditionOf (tasksOnlyRun ps sa) = None" for ps sa
    by (simp_all add: tasksOnlyRun_def sample_defs)
  have "statusIs (tasksOnlyRun [] None) ''Pending''"
    using C3_fallback_order [OF a b, of "[]" None] by (simp add: tasksOnlyRun_def sample_defs)
  moreover have "statusIs (tasksOnlyRun [] (Some ''2024-01-01T00:00:00Z'')) ''Running''"
    using C3_fallback_order [OF a b, of "[]" "Some ''2024-01-01T00:00:00Z''"]
    by (simp add: tasksOnlyRun_def sample_defs)
  moreover have "statusIs (tasksOnlyRun [''Succeeded'', ''Succeeded''] None) ''Succeeded''"
    using C3_fallback_order [OF a b, of "[''Succeeded'', ''Succeeded'']" None]
    by (simp add: tasksOnlyRun_def sample_defs)
  moreover have "statusIs (tasksOnlyRun [''Succeeded'', ''Running''] None) ''Running''"
    using C3_fallback_order [OF a b, of "[''Succeeded'', ''Running'']" None]
    by (simp add: tasksOnlyRun_def sample_defs)
  moreover have "statusIs (tasksOnlyRun [''Running'', ''Error''] None) ''Failed''"
    using C3_fallback_order [OF a b, of "[''Running'', ''Error'']" None]
    by (simp add: tasksOnlyRun_def sample_defs)
  moreover have "statusIs (tasksOnlyRun [''Succeeded'', ''Pending''] None) ''Pending''"
    using C3_fallback_order [OF a b, of "[''Succeeded'', ''Pending'']" None]
    by (simp add: tasksOnlyRun_def sample_defs)
  ultimately show ?thesis using a b by simp
qed

text \<open>
  C4. The status computed inline by \<open>transformComponentWorkflowRun\<close> of the
  openchoreo-backend transformer equals the one \<open>deriveWorkflowRunStatus\<close> of the CI
  backend computes, for every raw run record.
\<close>

theorem C4_implementations_agree:
  "resp_status (transformComponentWorkflowRun run) = deriveWorkflowRunStatus run"
  by (simp only: ci_deriveStatus tr_deriveStatus)

lemma transformers_agree: "transformComponentWorkflowRun run = transformWorkflowRun run"
proof -
  have "transformComponentWorkflowRun run
          = (transformWorkflowRun run)\<lparr>resp_status := resp_status (transformComponentWorkflowRun run)\<rparr>"
    by (simp add: transformComponentWorkflowRun_def transformWorkflowRun_def Let_def)
  also have "\<dots> = transformWorkflowRun run"
    by (simp add: tr_deriveStatus ci_deriveStatus transformWorkflowRun_def Let_def)
  finally show ?thesis .
qed

lemma deriveStatus_range:
  "deriveStatus run \<in> {''Failed'', ''Succeeded'', ''Running'', ''Pending''}
                      \<union> {r. readyReasonOf run = Some r \<and> r \<noteq> []}"
  by (simp add: deriveStatus_def readyReasonOf_def split: option.splits)

lemma deriveStatus_default:
  "\<not> truthy (completedAtOf run) \<Longrightarrow> readyConditionOf run = None \<Longrightarrow> tasksOf run = []
     \<Longrightarrow> \<not> truthy (startedAtOf run) \<Longrightarrow> deriveStatus run = ''Pending''"
  by (simp add: deriveStatus_def anyFailedTask_def anyTask_def allTasksSucceeded_def)

text \<open>
  C10. A Ready condition whose reason is the empty string counts as one without reason,
  in both implementations: with \<open>completedAt\<close> set and no failed task the label is
  \<open>Succeeded\<close>; without \<open>completedAt\<close> it is \<open>Succeeded\<close> when the condition's status is
  \<open>True\<close> and \<open>Running\<close> otherwise; the label is never the empty string.
\<close>

theorem C10_empty_reason:
  assumes "readyConditionOf run = Some rc" and "cond_reason rc = Some []"
  shows
    "(truthy (completedAtOf run) \<and> \<not> anyFailedTask (tasksOf run) \<longrightarrow> statusIs run ''Succeeded'')
   \<and> (\<not> truthy (completedAtOf run) \<and> cond_status rc = Some ''True''
        \<longrightarrow> statusIs run ''Succeeded'')
   \<and> (\<not> truthy (completedAtOf run) \<and> cond_status rc \<noteq> Some ''True''
        \<longrightarrow> statusIs run ''Running'')
   \<and> deriveWorkflowRunStatus run \<noteq> []
   \<and> resp_status (transformComponentWorkflowRun run) \<noteq> []"
  using assms
  by (simp add: statusIs_deriveStatus ci_deriveStatus tr_deriveStatus deriveStatus_def
                readyReasonOf_def)

theorem C10_empty_reason_witness:
  "readyConditionOf (emptyReasonRun (Some ''2024-01-01T00:00:00Z'') ''False'')
     = Some (mkCondition ''Ready'' ''False'' (Some []))
   \<and> statusIs (emptyReasonRun (Some ''2024-01-01T00:00:00Z'') ''False'') ''Succeeded''
   \<and> statusIs (emptyReasonRun None ''True'') ''Succeeded''
   \<and> statusIs (emptyReasonRun None ''False'') ''Running''"
proof -
  have a: "readyConditionOf (emptyReasonRun d s) = Some (mkCondition ''Ready'' s (Some []))"
    for d s
    by (simp add: emptyReasonRun_def sample_defs)
  have b: "cond_reason (mkCondition ''Ready'' s (Some [])) = Some []" for s
    by (simp add: mkCondition_def)
  have "statusIs (emptyReasonRun (Some ''2024-01-01T00:00:00Z'') ''False'') ''Succeeded''"
    using C10_empty_reason [OF a b, of "Some ''2024-01-01T00:00:00Z''" "''False''"]
    by (simp add: emptyReasonRun_def sample_defs)
  moreover have "statusIs (emptyReasonRun None ''True'') ''Succeeded''"
    using C10_empty_reason [OF a b, of None "''True''"] by (simp add: emptyReasonRun_def sample_defs)
  moreover have "statusIs (emptyReasonRun None ''False'') ''Running''"
    using C10_empty_reason [OF a b, of None "''False''"] by (simp add: emptyReasonRun_def sample_defs)
  ultimately show ?thesis using a by simp
qed

section \<open>Status derivation on JSON values\<close>

lemma bindE_Inr [simp]: "bindE (Inr v) f = f v"
  by (simp add: bindE_def)

lemma bindE_Inl [simp]: "bindE (Inl e) f = Inl e"
  by (simp add: bindE_def)

lemma decodeStr_iff: "(decodeStr v = Some s) = (v = Str s)"
  by (cases v) (simp_all add: decodeStr_def)

lemma truthyV_optString: "isOptString v \<Longrightarrow> truthyV v = truthy (decodeStr v)"
  by (cases v) (simp_all add: isOptString_def truthyV_def truthy_def decodeStr_def)

lemma optString_cases:
  "isOptString v \<Longrightarrow> (decodeStr v = None \<and> \<not> truthyV v) \<or> (\<exists>s. v = Str s)"
  by (cases v) (simp_all add: isOptString_def truthyV_def decodeStr_def)

lemma someE_Inr:
  "\<forall>x \<in> set xs. p x = Inr (q x) \<Longrightarrow> someE p xs = Inr (\<exists>x \<in> set xs. q x)"
  by (induction xs) auto

lemma everyE_Inr:
  "\<forall>x \<in> set xs. p x = Inr (q x) \<Longrightarrow> everyE p xs = Inr (\<forall>x \<in> set xs. q x)"
  by (induction xs) auto

lemma findE_Inr:
  "\<forall>x \<in> set xs. p x = Inr (q x) \<Longrightarrow>
     findE p xs = Inr (case find q xs of None \<Rightarrow> Undefined | Some x \<Rightarrow> x)"
  by (induction xs) auto

lemma object_not_nullish: "isObject v \<Longrightarrow> \<not> isNullish v"
  by (cases v) (simp_all add: isObject_def isNullish_def)

lemma phaseIs_task:
  "isTaskV t \<Longrightarrow> phaseIs s t = Inr (task_phase (decodeTask t) = Some s)"
  by (simp add: isTaskV_def phaseIs_def getProp_def object_not_nullish decodeTask_def decodeStr_iff)

lemma phaseFailed_task:
  "isTaskV t \<Longrightarrow>
     phaseFailed t =
       Inr (task_phase (decodeTask t) = Some ''Failed'' \<or> task_phase (decodeTask t) = Some ''Error'')"
  by (simp add: isTaskV_def phaseFailed_def getProp_def object_not_nullish decodeTask_def decodeStr_iff)

lemma typeIsReady_condition:
  "isConditionV c \<Longrightarrow> typeIsReady c = Inr (cond_type (decodeCondition c) = Some ''Ready'')"
  by (simp add: isConditionV_def typeIsReady_def getProp_def object_not_nullish decodeCondition_def
      decodeStr_iff)

lemma tasks_failed:
  "list_all isTaskV ts \<Longrightarrow> someE phaseFailed ts = Inr (anyFailedTask (map decodeTask ts))"
  by (subst someE_Inr [where q = "\<lambda>t. task_phase (decodeTask t) = Some ''Failed''
        \<or> task_phase (decodeTask t) = Some ''Error''"])
     (auto simp: list_all_iff phaseFailed_task anyFailedTask_def anyTask_def)

lemma tasks_some:
  "list_all isTaskV ts \<Longrightarrow> someE (phaseIs s) ts = Inr (anyTask s (map decodeTask ts))"
  by (subst someE_Inr [where q = "\<lambda>t. task_phase (decodeTask t) = Some s"])
     (auto simp: list_all_iff phaseIs_task anyTask_def)

lemma tasks_every:
  "list_all isTaskV ts \<Longrightarrow>
     everyE (phaseIs s) ts = Inr (\<forall>t \<in> set ts. task_phase (decodeTask t) = Some s)"
  by (subst everyE_Inr [where q = "\<lambda>t. task_phase (decodeTask t) = Some s"])
     (auto simp: list_all_iff phaseIs_task)

lemma firstReady_map:
  "firstReady (map decodeCondition cs)
     = map_option decodeCondition (find (\<lambda>c. cond_type (decodeCondition c) = Some ''Ready'') cs)"
  by (induction cs) simp_all

lemma conditions_ready:
  "list_all isConditionV cs \<Longrightarrow>
     findE typeIsReady cs
       = Inr (case find (\<lambda>c. cond_type (decodeCondition c) = Some ''Ready'') cs of
                None \<Rightarrow> Undefined | Some c \<Rightarrow> c)"
  by (rule findE_Inr) (simp add: list_all_iff typeIsReady_condition)

lemma runRecordOf_status: "run_status (runRecordOf run) = decodeStatus (member run ''status'')"
  by (simp add: runRecordOf_def mkRun_def)

lemma status_nullish:
  assumes "isNullish st"
  shows "decodeStatus st = None"
  using assms by (cases st) (simp_all add: isNullish_def decodeStatus_def isObject_def)

lemma optArray_cases:
  "isOptArrayOf p v \<Longrightarrow> (isNullish v \<and> decodeList f v = None)
     \<or> (\<exists>xs. v = Arr xs \<and> list_all p xs \<and> decodeList f v = Some (map f xs))"
  by (cases v) (simp_all add: isOptArrayOf_def isNullish_def decodeList_def)

text \<open>what the derivation reads from a status object, in the words of the rules\<close>

lemma read_completedAt:
  assumes "isStatusV st" "run_status r = decodeStatus st"
  shows "truthyV (optProp st ''completedAt'') = truthy (completedAtOf r)"
proof (cases "isNullish st")
  case True
  then show ?thesis
    using assms by (simp add: optProp_def completedAtOf_def status_nullish truthyV_def truthy_def)
next
  case False
  then show ?thesis
    using assms
    by (simp add: isStatusV_def optProp_def completedAtOf_def decodeStatus_def truthyV_optString)
qed

lemma read_startedAt:
  assumes "isStatusV st" "run_status r = decodeStatus st"
  shows "truthyV (optProp st ''startedAt'') = truthy (startedAtOf r)"
proof (cases "isNullish st")
  case True
  then show ?thesis
    using assms by (simp add: optProp_def startedAtOf_def status_nullish truthyV_def truthy_def)
next
  case False
  then show ?thesis
    using assms
    by (simp add: isStatusV_def optProp_def startedAtOf_def decodeStatus_def truthyV_optString)
qed

lemma read_tasks:
  assumes "isStatusV st" "run_status r = decodeStatus st"
  obtains ts where "coalesce (optProp st ''tasks'') (Arr []) = Arr ts" "list_all isTaskV ts"
    "tasksOf r = map decodeTask ts"
proof (cases "isNullish st")
  case True
  then show ?thesis
    using assms that [of "[]"]
    by (simp add: optProp_def coalesce_def isNullish_def tasksOf_def status_nullish)
next
  case False
  then have o: "isObject st" and a: "isOptArrayOf isTaskV (member st ''tasks'')"
    using assms by (simp_all add: isStatusV_def)
  from optArray_cases [OF a, of decodeTask] show ?thesis
  proof (elim disjE exE conjE)
    assume "isNullish (member st ''tasks'')" "decodeList decodeTask (member st ''tasks'') = None"
    then show ?thesis
      using assms o False that [of "[]"]
      by (simp add: optProp_def coalesce_def tasksOf_def decodeStatus_def)
  next
    fix xs
    assume "member st ''tasks'' = Arr xs" "list_all isTaskV xs"
      "decodeList decodeTask (member st ''tasks'') = Some (map decodeTask xs)"
    then show ?thesis
      using assms o False that [of xs]
      by (simp add: optProp_def coalesce_def tasksOf_def decodeStatus_def isNullish_def)
  qed
qed

lemma read_ready:
  assumes "isStatusV st" "run_status r = decodeStatus st"
  obtains
    (none) "callOnArray (coalesce (optProp st ''conditions'') (Arr [])) (findE typeIsReady)
              = Inr Undefined"
      "(let conditions = optProp st ''conditions''
        in if isNullish conditions then Inr Undefined
           else callOnArray conditions (findE typeIsReady)) = Inr Undefined"
      "readyConditionOf r = None"
  | (ready) c where
      "callOnArray (coalesce (optProp st ''conditions'') (Arr [])) (findE typeIsReady) = Inr c"
      "(let conditions = optProp st ''conditions''
        in if isNullish conditions then Inr Undefined
           else callOnArray conditions (findE typeIsReady)) = Inr c"
      "isConditionV c" "readyConditionOf r = Some (decodeCondition c)"
proof (cases "isNullish st")
  case True
  then show ?thesis
    using assms none
    by (simp add: optProp_def coalesce_def isNullish_def readyConditionOf_def status_nullish
        callOnArray_def)
next
  case False
  then have o: "isObject st" and a: "isOptArrayOf isConditionV (member st ''conditions'')"
    using assms by (simp_all add: isStatusV_def)
  from optArray_cases [OF a, of decodeCondition] show ?thesis
  proof (elim disjE exE conjE)
    assume "isNullish (member st ''conditions'')"
      "decodeList decodeCondition (member st ''conditions'') = None"
    then show ?thesis
      using assms o False none
      by (simp add: optProp_def coalesce_def readyConditionOf_def decodeStatus_def callOnArray_def)
  next
    fix xs
    assume x: "member st ''conditions'' = Arr xs" "list_all isConditionV xs"
      "decodeList decodeCondition (member st ''conditions'') = Some (map decodeCondition xs)"
    show ?thesis
    proof (cases "find (\<lambda>c. cond_type (decodeCondition c) = Some ''Ready'') xs")
      case None
      then show ?thesis
        using assms o False x none
        by (simp add: optProp_def coalesce_def readyConditionOf_def decodeStatus_def
            callOnArray_def isNullish_def conditions_ready firstReady_map)
    next
      case (Some c)
      then have "c \<in> set xs"
        by (auto simp: find_Some_iff)
      then have "isConditionV c"
        using x(2) by (simp add: list_all_iff)
      then show ?thesis
        using assms o False x Some ready [of c]
        by (simp add: optProp_def coalesce_def readyConditionOf_def decodeStatus_def
            callOnArray_def isNullish_def conditions_ready firstReady_map)
    qed
  qed
qed

lemma condition_reads:
  assumes "isConditionV c"
  shows "truthyV c" "optProp c k = member c k" "getProp c k = Inr (member c k)"
    "isOptString (member c ''reason'')"
    "cond_reason (decodeCondition c) = decodeStr (member c ''reason'')"
    "(member c ''status'' = Str s) = (cond_status (decodeCondition c) = Some s)"
  using assms
  by (cases c; simp add: isConditionV_def isObject_def truthyV_def optProp_def getProp_def
      isNullish_def decodeCondition_def decodeStr_iff)+

lemma undefined_reads:
  "\<not> truthyV Undefined" "optProp Undefined k = Undefined"
  by (simp_all add: truthyV_def optProp_def isNullish_def)

lemma reason_label:
  assumes "isOptString v"
  shows "(if truthyV v \<and> v \<noteq> Str ''Running'' \<and> v \<noteq> Str ''Pending'' then Inr v
          else Inr (Str ''Succeeded''))
         = (Inr (Str (case decodeStr v of
                   Some r \<Rightarrow>
                     if r \<noteq> [] \<and> r \<noteq> ''Running'' \<and> r \<noteq> ''Pending'' then r else ''Succeeded''
                 | None \<Rightarrow> ''Succeeded'')) :: exn + jsval)"
  using assms by (cases v) (simp_all add: isOptString_def truthyV_def decodeStr_def)

lemma condition_label:
  assumes "isOptString v"
  shows "(if truthyV v then Inr v else Inr (Str d))
         = (Inr (Str (case decodeStr v of
                   Some r \<Rightarrow> if r \<noteq> [] then r else d
                 | None \<Rightarrow> d)) :: exn + jsval)"
  using assms by (cases v) (simp_all add: isOptString_def truthyV_def decodeStr_def)

lemma read_task_tests:
  assumes "isStatusV st" "run_status r = decodeStatus st"
  defines "tasks \<equiv> coalesce (optProp st ''tasks'') (Arr [])"
  shows "callOnArray tasks (someE phaseFailed) = Inr (anyFailedTask (tasksOf r))"
    "callOnArray tasks (someE (phaseIs ''Running'')) = Inr (anyTask ''Running'' (tasksOf r))"
    "callOnArray tasks (everyE (phaseIs ''Succeeded''))
       = Inr (every (\<lambda>t. task_phase t = Some ''Succeeded'') (tasksOf r))"
    "lengthPositive tasks = (length (tasksOf r) > 0)"
proof -
  obtain ts where t: "tasks = Arr ts" "list_all isTaskV ts" "tasksOf r = map decodeTask ts"
    unfolding tasks_def by (rule read_tasks [OF assms(1,2)])
  show "callOnArray tasks (someE phaseFailed) = Inr (anyFailedTask (tasksOf r))"
    by (simp add: t callOnArray_def tasks_failed)
  show "callOnArray tasks (someE (phaseIs ''Running'')) = Inr (anyTask ''Running'' (tasksOf r))"
    by (simp add: t callOnArray_def tasks_some)
  show "callOnArray tasks (everyE (phaseIs ''Succeeded''))
       = Inr (every (\<lambda>t. task_phase t = Some ''Succeeded'') (tasksOf r))"
    by (simp add: t(1,3) callOnArray_def tasks_every [OF t(2)] every_def list_all_iff)
  show "lengthPositive tasks = (length (tasksOf r) > 0)"
    by (simp add: t lengthPositive_def)
qed

lemma allTasksSucceeded_every:
  "allTasksSucceeded ts = (every (\<lambda>t. task_phase t = Some ''Succeeded'') ts \<and> ts \<noteq> [])"
  by (auto simp: every_def list_all_iff allTasksSucceeded_def)

lemma deriveWorkflowRunStatus_raw_label:
  assumes "isRunRecord run"
  shows "deriveWorkflowRunStatus_raw run = Inr (Str (deriveStatus (runRecordOf run)))"
proof -
  define st where "st = member run ''status''"
  define r where "r = runRecordOf run"
  have s: "isStatusV st" and g: "getProp run ''status'' = Inr st"
    using assms by (simp_all add: isRunRecord_def st_def getProp_def object_not_nullish)
  have d: "run_status r = decodeStatus st"
    by (simp add: r_def st_def runRecordOf_status)
  note reads = read_completedAt [OF s d] read_startedAt [OF s d] read_task_tests [OF s d]
  show ?thesis
  proof (rule read_ready [OF s d], goal_cases)
    case none: 1
    show ?thesis
      unfolding deriveWorkflowRunStatus_raw_def Let_def g r_def [symmetric] deriveStatus_def
      by (simp add: reads none(1,3) undefined_reads readyReasonOf_def allTasksSucceeded_every)
  next
    case ready: (2 c)
    note c = condition_reads [OF ready(3)]
    have rr: "readyReasonOf r = decodeStr (member c ''reason'')"
      by (simp add: readyReasonOf_def ready(4) c(5))
    show ?thesis
      unfolding deriveWorkflowRunStatus_raw_def Let_def g r_def [symmetric] deriveStatus_def
      by (simp add: reads ready(1,4) c(1,2,3,5,6) rr reason_label [OF c(4)]
          condition_label [OF c(4)] allTasksSucceeded_every del: if_split cong: if_cong)
  qed
qed

lemma truthy_not_nullish: "truthyV v \<Longrightarrow> \<not> isNullish v"
  by (cases v) (simp_all add: truthyV_def isNullish_def)

lemma workflow_ok:
  "\<exists>w. (if truthyV (optProp spec ''workflow'') then
          bindE (getProp spec ''workflow'') (\<lambda>workflow.
          bindE (getProp workflow ''name'') (\<lambda>name.
          bindE (getProp workflow ''parameters'') (\<lambda>parameters.
            Inr (Obj [(''name'', name), (''parameters'', parameters)]))))
        else Inr Undefined) = Inr w"
proof (cases "truthyV (optProp spec ''workflow'')")
  case True
  then have n: "\<not> isNullish spec"
    by (auto simp: optProp_def truthyV_def)
  then have "\<not> isNullish (member spec ''workflow'')"
    using True by (simp add: optProp_def truthy_not_nullish)
  then show ?thesis
    using True n by (simp add: getProp_def)
next
  case False
  then show ?thesis
    by simp
qed

lemma buildResponse_status:
  assumes "isObject run"
  shows "\<exists>response. buildResponse run labels annotations label = Inr response
           \<and> member response ''status'' = label"
proof -
  have g: "getProp run k = Inr (member run k)" for k
    using assms by (simp add: getProp_def object_not_nullish)
  obtain w where w: "(if truthyV (optProp (member run ''spec'') ''workflow'') then
          bindE (getProp (member run ''spec'') ''workflow'') (\<lambda>workflow.
          bindE (getProp workflow ''name'') (\<lambda>name.
          bindE (getProp workflow ''parameters'') (\<lambda>parameters.
            Inr (Obj [(''name'', name), (''parameters'', parameters)]))))
        else Inr Undefined) = Inr w"
    using workflow_ok [of "member run ''spec''"] by (elim exE) (rule that)
  show ?thesis
    unfolding buildResponse_def g bindE_Inr w
    by (simp add: member_def)
qed

lemma transformWorkflowRun_raw_label:
  assumes "isRunRecord run"
  shows "\<exists>response. transformWorkflowRun_raw run = Inr response
           \<and> member response ''status'' = Str (deriveStatus (runRecordOf run))"
proof -
  have o: "isObject run"
    using assms by (simp add: isRunRecord_def)
  then have g: "getProp run k = Inr (member run k)" for k
    by (simp add: getProp_def object_not_nullish)
  show ?thesis
    unfolding transformWorkflowRun_raw_def Let_def g bindE_Inr
      deriveWorkflowRunStatus_raw_label [OF assms]
    by (rule buildResponse_status [OF o])
qed

lemma componentRunStatus_raw_label:
  assumes "isRunRecord run"
  shows "componentRunStatus_raw run = Inr (Str (deriveStatus (runRecordOf run)))"
proof -
  define st where "st = member run ''status''"
  define r where "r = runRecordOf run"
  have s: "isStatusV st" and g: "getProp run ''status'' = Inr st"
    using assms by (simp_all add: isRunRecord_def st_def getProp_def object_not_nullish)
  have d: "run_status r = decodeStatus st"
    by (simp add: r_def st_def runRecordOf_status)
  note reads = read_completedAt [OF s d] read_startedAt [OF s d] read_task_tests [OF s d]
  show ?thesis
  proof (rule read_ready [OF s d], goal_cases)
    case none: 1
    show ?thesis
      unfolding componentRunStatus_raw_def g r_def [symmetric] deriveStatus_def none(2) bindE_Inr
      by (simp add: Let_def reads none(3) undefined_reads readyReasonOf_def allTasksSucceeded_every)
  next
    case ready: (2 c)
    note c = condition_reads [OF ready(3)]
    have rr: "readyReasonOf r = decodeStr (member c ''reason'')"
      by (simp add: readyReasonOf_def ready(4) c(5))
    show ?thesis
      unfolding componentRunStatus_raw_def g r_def [symmetric] deriveStatus_def ready(2) bindE_Inr
      by (simp add: Let_def reads ready(4) c(1,2,3,5,6) rr reason_label [OF c(4)]
          condition_label [OF c(4)] allTasksSucceeded_every del: if_split cong: if_cong)
  qed
qed

lemma transformComponentWorkflowRun_raw_label:
  assumes "isRunRecord run"
  shows "\<exists>response. transformComponentWorkflowRun_raw run = Inr response
           \<and> member response ''status'' = Str (deriveStatus (runRecordOf run))"
proof -
  have o: "isObject run"
    using assms by (simp add: isRunRecord_def)
  then have g: "getProp run k = Inr (member run k)" for k
    by (simp add: getProp_def object_not_nullish)
  show ?thesis
    unfolding transformComponentWorkflowRun_raw_def Let_def g bindE_Inr
      componentRunStatus_raw_label [OF assms]
    by (rule buildResponse_status [OF o])
qed

lemma null_task_throws:
  "deriveWorkflowRunStatus_raw nullTaskRun = typeError"
  "componentRunStatus_raw nullTaskRun = typeError"
  by (simp_all add: deriveWorkflowRunStatus_raw_def componentRunStatus_raw_def nullTaskRun_def
      getProp_def optProp_def member_def isNullish_def coalesce_def callOnArray_def typeIsReady_def
      phaseFailed_def truthyV_def typeError_def)

text \<open>
  C5. Status derivation is total and deterministic on run records. Take any JSON value
  that is a run record of the data model: an object whose \<open>status\<close>, when present, holds
  an optional \<open>completedAt\<close> and \<open>startedAt\<close>, an optional list of conditions and an
  optional list of tasks, every field of a condition or task an optional string. On it
  \<^verbatim>\<open>deriveWorkflowRunStatus\<close>, the status computation of
  \<^verbatim>\<open>transformComponentWorkflowRun\<close> and both transformers return without throwing, and
  the status they return is one string: the label the priority rules give the record,
  which is \<open>Failed\<close>, \<open>Succeeded\<close>, \<open>Running\<close>, \<open>Pending\<close> or the non-empty reason of the
  Ready condition, and is \<open>Pending\<close> when nothing is set. The label depends on the record
  alone: two values that carry the same run record, whatever else they hold, get the
  same label. Outside the data model the code can throw (\<open>null_task_throws\<close>).
\<close>

theorem C5_total_deterministic:
  assumes "isRunRecord run"
  shows "deriveWorkflowRunStatus_raw run = Inr (Str (deriveStatus (runRecordOf run)))
   \<and> componentRunStatus_raw run = Inr (Str (deriveStatus (runRecordOf run)))
   \<and> (\<exists>response. transformWorkflowRun_raw run = Inr response
         \<and> member response ''status'' = Str (deriveStatus (runRecordOf run)))
   \<and> (\<exists>response. transformComponentWorkflowRun_raw run = Inr response
         \<and> member response ''status'' = Str (deriveStatus (runRecordOf run)))
   \<and> deriveStatus (runRecordOf run)
        \<in> {''Failed'', ''Succeeded'', ''Running'', ''Pending''}
          \<union> {r. readyReasonOf (runRecordOf run) = Some r \<and> r \<noteq> []}
   \<and> (\<not> truthy (completedAtOf (runRecordOf run)) \<and> readyConditionOf (runRecordOf run) = None
        \<and> tasksOf (runRecordOf run) = [] \<and> \<not> truthy (startedAtOf (runRecordOf run))
        \<longrightarrow> deriveWorkflowRunStatus_raw run = Inr (Str ''Pending'')
            \<and> componentRunStatus_raw run = Inr (Str ''Pending''))
   \<and> (\<forall>run'. isRunRecord run' \<and> runRecordOf run' = runRecordOf run \<longrightarrow>
          deriveWorkflowRunStatus_raw run' = deriveWorkflowRunStatus_raw run
          \<and> componentRunStatus_raw run' = componentRunStatus_raw run)"
proof (intro conjI allI impI)
  show "deriveWorkflowRunStatus_raw run = Inr (Str (deriveStatus (runRecordOf run)))"
    by (rule deriveWorkflowRunStatus_raw_label [OF assms])
  show "componentRunStatus_raw run = Inr (Str (deriveStatus (runRecordOf run)))"
    by (rule componentRunStatus_raw_label [OF assms])
  show "\<exists>response. transformWorkflowRun_raw run = Inr response
         \<and> member response ''status'' = Str (deriveStatus (runRecordOf run))"
    by (rule transformWorkflowRun_raw_label [OF assms])
  show "\<exists>response. transformComponentWorkflowRun_raw run = Inr response
         \<and> member response ''status'' = Str (deriveStatus (runRecordOf run))"
    by (rule transformComponentWorkflowRun_raw_label [OF assms])
  show "deriveStatus (runRecordOf run)
        \<in> {''Failed'', ''Succeeded'', ''Running'', ''Pending''}
          \<union> {r. readyReasonOf (runRecordOf run) = Some r \<and> r \<noteq> []}"
    by (rule deriveStatus_range)
next
  assume "\<not> truthy (completedAtOf (runRecordOf run)) \<and> readyConditionOf (runRecordOf run) = None
        \<and> tasksOf (runRecordOf run) = [] \<and> \<not> truthy (startedAtOf (runRecordOf run))"
  then have p: "deriveStatus (runRecordOf run) = ''Pending''"
    by (simp add: deriveStatus_default)
  show "deriveWorkflowRunStatus_raw run = Inr (Str ''Pending'')"
    by (simp only: deriveWorkflowRunStatus_raw_label [OF assms] p)
  show "componentRunStatus_raw run = Inr (Str ''Pending'')"
    by (simp only: componentRunStatus_raw_label [OF assms] p)
next
  fix run'
  assume a: "isRunRecord run' \<and> runRecordOf run' = runRecordOf run"
  show "deriveWorkflowRunStatus_raw run' = deriveWorkflowRunStatus_raw run"
    using a by (simp add: deriveWorkflowRunStatus_raw_label assms)
  show "componentRunStatus_raw run' = componentRunStatus_raw run"
    using a by (simp add: componentRunStatus_raw_label assms)
qed

lemmas raw_defs = rawRun_def isRunRecord_def isStatusV_def isObject_def isNullish_def member_def
  isOptArrayOf_def isOptString_def isConditionV_def isTaskV_def runRecordOf_def decodeStatus_def
  decodeList_def decodeStr_def decodeCondition_def decodeTask_def

theorem C5_total_deterministic_witness:
  "isRunRecord (Obj []) \<and> isRunRecord noReasonRun
   \<and> deriveWorkflowRunStatus_raw (Obj []) = Inr (Str ''Pending'')
   \<and> componentRunStatus_raw (Obj []) = Inr (Str ''Pending'')
   \<and> deriveWorkflowRunStatus_raw noReasonRun = Inr (Str ''Succeeded'')
   \<and> componentRunStatus_raw noReasonRun = Inr (Str ''Succeeded'')
   \<and> deriveWorkflowRunStatus_raw (Obj [(''status'', Null)]) = Inr (Str ''Pending'')"
proof -
  have e: "isRunRecord (Obj [])" and n: "isRunRecord noReasonRun"
    and u: "isRunRecord (Obj [(''status'', Null)])"
    by (simp_all add: noReasonRun_def raw_defs)
  have "deriveStatus (runRecordOf (Obj [])) = ''Pending''"
    by (simp add: deriveStatus_def raw_defs sample_defs)
  moreover have "deriveStatus (runRecordOf noReasonRun) = ''Succeeded''"
    by (simp add: deriveStatus_def noReasonRun_def raw_defs sample_defs)
  moreover have "runRecordOf (Obj [(''status'', Null)]) = runRecordOf (Obj [])"
    by (simp add: raw_defs)
  ultimately show ?thesis
    using C5_total_deterministic [OF e] C5_total_deterministic [OF n] e n u
    by simp
qed

section \<open>Laws of the outcome monad\<close>

lemma bindA_returnA [simp]: "bindA (returnA v) f = f v"
  by (simp add: bindA_def returnA_def split: prod.splits)

lemma bindA_awaitA_Inr [simp]: "bindA (awaitA (Inr v)) f = f v"
  by (simp add: bindA_def awaitA_def split: prod.splits)

lemma bindA_awaitA_Inl [simp]: "bindA (awaitA (Inl e)) f = (Inl e, [])"
  by (simp add: bindA_def awaitA_def)

lemma bindA_Inr [simp]: "bindA (Inr v, l) f = (fst (f v), l @ snd (f v))"
  by (simp add: bindA_def split: prod.splits)

lemma bindA_Inl [simp]: "bindA (Inl e, l) f = (Inl e, l)"
  by (simp add: bindA_def)

lemma bindA_logA [simp]: "bindA (logA lv msg c) f = (fst (f ()), Log lv msg c # snd (f ()))"
  by (simp add: logA_def)

lemma tryCatch_Inr [simp]: "tryCatch (Inr v, l) h = (Inr v, l)"
  by (simp add: tryCatch_def)

lemma tryCatch_Inl [simp]: "tryCatch (Inl e, l) h = (fst (h e), l @ snd (h e))"
  by (simp add: tryCatch_def split: prod.splits)

lemma fst_returnA [simp]: "fst (returnA v) = Inr v" and snd_returnA [simp]: "snd (returnA v) = []"
  by (simp_all add: returnA_def)

section \<open>Laws of the Map\<close>

lemma map_of_Map_set [simp]: "map_of (Map_set m k v) = (map_of m)(k \<mapsto> v)"
  by (induction m) (auto simp: fun_eq_iff)

lemma keys_Map_set:
  "map fst (Map_set m k v) = (if k \<in> set (map fst m) then map fst m else map fst m @ [k])"
  by (induction m) force+

lemma distinct_Map_set: "distinct (map fst m) \<Longrightarrow> distinct (map fst (Map_set m k v))"
  by (simp add: keys_Map_set)

lemma Map_set_twice [simp]: "Map_set (Map_set m k v) k v' = Map_set m k v'"
  by (induction m) auto

lemma mset_groups_Map_set:
  "mset (concat (map snd (Map_set m k (nullish (map_of m k) [] @ [x]))))
     = mset (concat (map snd m)) + {#x#}"
  by (induction m) (auto simp: nullish_def)

section \<open>Grouping\<close>

lemma groupEnvironment_Inr:
  "groupEnvironment m env
     = Inr (Map_set m (environmentKey env) (nullish (map_of m (environmentKey env)) [] @ [env]))"
  by (auto simp: groupEnvironment_def environmentKey_def compositeKey_def Let_def Map_has_def
                 Map_get_def nullish_def)

lemma groupEnvironments_total: "\<exists>m'. groupEnvironments m envs = Inr m'"
  by (induction envs arbitrary: m) (simp_all add: groupEnvironment_Inr)

lemma groupEnvironments_get:
  "groupEnvironments m envs = Inr m' \<Longrightarrow>
     map_of m' k =
       (if filter (\<lambda>e. environmentKey e = k) envs = [] then map_of m k
        else Some (nullish (map_of m k) [] @ filter (\<lambda>e. environmentKey e = k) envs))"
proof (induction envs arbitrary: m)
  case Nil
  then show ?case by simp
next
  case (Cons env envs)
  then show ?case
    by (simp add: groupEnvironment_Inr nullish_def)
qed

lemma groupEnvironments_distinct:
  "groupEnvironments m envs = Inr m' \<Longrightarrow> distinct (map fst m) \<Longrightarrow> distinct (map fst m')"
  by (induction envs arbitrary: m) (auto simp: groupEnvironment_Inr distinct_Map_set)

lemma groupEnvironments_mset:
  "groupEnvironments m envs = Inr m' \<Longrightarrow>
     mset (concat (map snd m')) = mset (concat (map snd m)) + mset envs"
  by (induction envs arbitrary: m) (auto simp: groupEnvironment_Inr mset_groups_Map_set)

lemma same_name_other_namespace:
  "env_dataPlaneRef e1 = env_dataPlaneRef e2 \<Longrightarrow> env_namespaceName e1 \<noteq> env_namespaceName e2
     \<Longrightarrow> environmentKey e1 \<noteq> environmentKey e2"
  by (simp add: environmentKey_def compositeKey_def)

text \<open>
  C6. The grouping of environments by data plane inside \<open>fetchDataplanesWithEnvironments\<close>
  never fails and partitions its input: the map has one entry per composite key
  \<open>namespaceName/dataPlaneRef\<close>; the group under a key is exactly the environments with
  that key, in their input order, so every environment is in one group and in no other;
  an environment whose \<open>dataPlaneRef\<close> is the empty string is in the group of
  \<open>namespaceName/\<close>; environments that name the same data plane in different namespaces
  are in different groups; and all groups together hold the input, each environment once.
\<close>

theorem C6_grouping_partitions:
  "\<exists>m. groupEnvironments [] envs = Inr m
     \<and> distinct (map fst m)
     \<and> (\<forall>(k, g) \<in> set m. g \<noteq> [] \<and> g = filter (\<lambda>e. environmentKey e = k) envs)
     \<and> (\<forall>e \<in> set envs. \<exists>g. Map_get m (environmentKey e) = Some g \<and> e \<in> set g)
     \<and> (\<forall>e \<in> set envs. env_dataPlaneRef e = [] \<longrightarrow>
           (\<exists>g. Map_get m (env_namespaceName e @ ''/'') = Some g \<and> e \<in> set g))
     \<and> (\<forall>e1 \<in> set envs. \<forall>e2 \<in> set envs.
           env_dataPlaneRef e1 = env_dataPlaneRef e2
           \<and> env_namespaceName e1 \<noteq> env_namespaceName e2
           \<longrightarrow> Map_get m (environmentKey e1) \<noteq> Map_get m (environmentKey e2))
     \<and> mset (concat (map snd m)) = mset envs"
proof -
  obtain m where m: "groupEnvironments [] envs = Inr m"
    using groupEnvironments_total by blast
  have get: "map_of m k =
       (if filter (\<lambda>e. environmentKey e = k) envs = [] then None
        else Some (filter (\<lambda>e. environmentKey e = k) envs))" for k
    using groupEnvironments_get [OF m, of k] by (simp add: nullish_def)
  have d: "distinct (map fst m)"
    using groupEnvironments_distinct [OF m] by simp
  have groups: "\<forall>(k, g) \<in> set m. g \<noteq> [] \<and> g = filter (\<lambda>e. environmentKey e = k) envs"
  proof (clarify)
    fix k g assume "(k, g) \<in> set m"
    then have "map_of m k = Some g" using d by simp
    then show "g \<noteq> [] \<and> g = filter (\<lambda>e. environmentKey e = k) envs"
      by (simp add: get split: if_splits)
  qed
  have member: "\<exists>g. Map_get m (environmentKey e) = Some g \<and> e \<in> set g" if "e \<in> set envs" for e
  proof -
    have "e \<in> set (filter (\<lambda>x. environmentKey x = environmentKey e) envs)"
      using that by simp
    moreover have "filter (\<lambda>x. environmentKey x = environmentKey e) envs \<noteq> []"
      using that by (auto simp: filter_empty_conv)
    ultimately show ?thesis
      by (simp add: Map_get_def get)
  qed
  have empty: "\<exists>g. Map_get m (env_namespaceName e @ ''/'') = Some g \<and> e \<in> set g"
    if "e \<in> set envs" "env_dataPlaneRef e = []" for e
    using member [OF that(1)] that(2) by (simp add: environmentKey_def compositeKey_def)
  have apart: "Map_get m (environmentKey e1) \<noteq> Map_get m (environmentKey e2)"
    if h: "e1 \<in> set envs" "e2 \<in> set envs" "env_dataPlaneRef e1 = env_dataPlaneRef e2"
       "env_namespaceName e1 \<noteq> env_namespaceName e2" for e1 e2
  proof
    assume eq: "Map_get m (environmentKey e1) = Map_get m (environmentKey e2)"
    obtain g where g: "Map_get m (environmentKey e1) = Some g" "e1 \<in> set g"
      using member [OF h(1)] by blast
    have "(environmentKey e2, g) \<in> set m"
      using g(1) eq by (simp add: Map_get_def map_of_SomeD)
    with groups have "g = filter (\<lambda>e. environmentKey e = environmentKey e2) envs" by blast
    with g(2) have "environmentKey e1 = environmentKey e2" by simp
    with same_name_other_namespace [OF h(3,4)] show False by simp
  qed
  have "mset (concat (map snd m)) = mset envs"
    using groupEnvironments_mset [OF m] by simp
  with m d groups member empty apart show ?thesis by blast
qed

lemma sample_group:
  "filter (\<lambda>x. environmentKey x = ''acme/default'') sampleEnvironments
     = [sampleEnv ''acme'' ''dev'' ''default'', sampleEnv ''acme'' ''prod'' ''default'']"
  "filter (\<lambda>x. environmentKey x = ''acme/'') sampleEnvironments = [sampleEnv ''acme'' ''lab'' []]"
  "filter (\<lambda>x. environmentKey x = ''beta/default'') sampleEnvironments
     = [sampleEnv ''beta'' ''dev'' ''default'']"
  by (simp_all add: sampleEnvironments_def sampleEnv_def environmentKey_def compositeKey_def)

lemma sample_key:
  "environmentKey (sampleEnv ns n d) = ns @ ''/'' @ d"
  by (simp add: sampleEnv_def environmentKey_def compositeKey_def)

theorem C6_grouping_partitions_witness:
  "\<exists>m. groupEnvironments [] sampleEnvironments = Inr m
     \<and> Map_get m ''acme/default''
         = Some [sampleEnv ''acme'' ''dev'' ''default'', sampleEnv ''acme'' ''prod'' ''default'']
     \<and> Map_get m ''acme/'' = Some [sampleEnv ''acme'' ''lab'' []]
     \<and> Map_get m ''beta/default'' = Some [sampleEnv ''beta'' ''dev'' ''default'']
     \<and> length (concat (map snd m)) = 4"
proof -
  from C6_grouping_partitions [of sampleEnvironments] obtain m where
    m: "groupEnvironments [] sampleEnvironments = Inr m"
    and groups: "\<forall>(k, g) \<in> set m. g \<noteq> [] \<and> g = filter (\<lambda>e. environmentKey e = k) sampleEnvironments"
    and member: "\<forall>e \<in> set sampleEnvironments. \<exists>g. Map_get m (environmentKey e) = Some g \<and> e \<in> set g"
    and all: "mset (concat (map snd m)) = mset sampleEnvironments"
    by (elim exE conjE) (rule that; assumption)
  have group: "Map_get m (environmentKey e)
                 = Some (filter (\<lambda>x. environmentKey x = environmentKey e) sampleEnvironments)"
    if "e \<in> set sampleEnvironments" for e
  proof -
    from member that obtain g where g: "Map_get m (environmentKey e) = Some g" by blast
    then have "(environmentKey e, g) \<in> set m" by (simp add: Map_get_def map_of_SomeD)
    with groups have "g = filter (\<lambda>x. environmentKey x = environmentKey e) sampleEnvironments"
      by (auto dest!: bspec)
    with g show ?thesis by simp
  qed
  have a: "Map_get m ''acme/default''
         = Some [sampleEnv ''acme'' ''dev'' ''default'', sampleEnv ''acme'' ''prod'' ''default'']"
    using group [of "sampleEnv ''acme'' ''dev'' ''default''"]
    by (simp add: sample_key sample_group) (simp add: sampleEnvironments_def)
  have b: "Map_get m ''acme/'' = Some [sampleEnv ''acme'' ''lab'' []]"
    using group [of "sampleEnv ''acme'' ''lab'' []"]
    by (simp add: sample_key sample_group) (simp add: sampleEnvironments_def)
  have c: "Map_get m ''beta/default'' = Some [sampleEnv ''beta'' ''dev'' ''default'']"
    using group [of "sampleEnv ''beta'' ''dev'' ''default''"]
    by (simp add: sample_key sample_group) (simp add: sampleEnvironments_def)
  have "size (mset (concat (map snd m))) = size (mset sampleEnvironments)"
    by (simp only: all)
  then have d: "length (concat (map snd m)) = 4"
    by (simp add: sampleEnvironments_def)
  from m a b c d show ?thesis by (intro exI [of _ m] conjI)
qed

section \<open>Counting bindings\<close>

lemma num_or_zero [simp]: "num_or v 0 = (case v of None \<Rightarrow> 0 | Some n \<Rightarrow> n)"
  by (simp add: num_or_def split: option.splits)

lemma sum_Map_set:
  "sum_list (map snd (Map_set m k v)) + (case map_of m k of None \<Rightarrow> 0 | Some n \<Rightarrow> n)
     = sum_list (map snd m) + (v::nat)"
proof (induction m)
  case Nil
  then show ?case by simp
next
  case (Cons p m)
  obtain k' v' where p: "p = (k', v')" by (cases p)
  show ?case
  proof (cases "k' = k")
    case True
    then show ?thesis by (simp add: p)
  next
    case False
    then show ?thesis using Cons.IH by (simp add: p)
  qed
qed

lemma countBinding_cases:
  "countBinding c m b =
     (if hasEnvironment b
      then Map_set m (bindingKey (c, b))
             ((case map_of m (bindingKey (c, b)) of None \<Rightarrow> 0 | Some n \<Rightarrow> n) + 1)
      else m)"
  by (simp add: countBinding_def hasEnvironment_def bindingKey_def environmentOf_def
                compositeKey_def chain_def Map_get_def Let_def
           split: option.splits)

lemma sumValues_countBinding:
  "sumValues (countBinding c m b) = sumValues m + (if hasEnvironment b then 1 else 0)"
  using sum_Map_set [of m "bindingKey (c, b)"
                        "(case map_of m (bindingKey (c, b)) of None \<Rightarrow> 0 | Some n \<Rightarrow> n) + 1"]
  by (simp add: countBinding_cases sumValues_def)

lemma map_of_countBinding:
  "map_of (countBinding c m b) k =
     (if hasEnvironment b \<and> bindingKey (c, b) = k
      then Some ((case map_of m k of None \<Rightarrow> 0 | Some n \<Rightarrow> n) + 1)
      else map_of m k)"
  by (simp add: countBinding_cases)

lemma distinct_countBinding:
  "distinct (map fst m) \<Longrightarrow> distinct (map fst (countBinding c m b))"
  by (simp add: countBinding_cases distinct_Map_set)

text \<open>All bindings processed, as one pass over the pairs of component and binding.\<close>

lemma sumValues_counted:
  "sumValues (foldl (\<lambda>m cb. countBinding (fst cb) m (snd cb)) m cbs)
     = sumValues m + countOf (\<lambda>cb. hasEnvironment (snd cb)) cbs"
  by (induction cbs arbitrary: m) (simp_all add: sumValues_countBinding countOf_def)

lemma map_of_counted:
  "map_of (foldl (\<lambda>m cb. countBinding (fst cb) m (snd cb)) m cbs) k =
     (if countOf (\<lambda>cb. hasEnvironment (snd cb) \<and> bindingKey cb = k) cbs = 0 then map_of m k
      else Some ((case map_of m k of None \<Rightarrow> 0 | Some n \<Rightarrow> n)
                   + countOf (\<lambda>cb. hasEnvironment (snd cb) \<and> bindingKey cb = k) cbs))"
proof (induction cbs arbitrary: m)
  case Nil
  then show ?case by (simp add: countOf_def)
next
  case (Cons cb cbs)
  show ?case
    by (cases cb) (simp add: Cons.IH map_of_countBinding countOf_def)
qed

lemma distinct_counted:
  "distinct (map fst m) \<Longrightarrow>
     distinct (map fst (foldl (\<lambda>m cb. countBinding (fst cb) m (snd cb)) m cbs))"
  by (induction cbs arbitrary: m) (simp_all add: distinct_countBinding)

lemma foldl_pairs:
  "foldl (countBinding c) m bs = foldl (\<lambda>m cb. countBinding (fst cb) m (snd cb)) m (map (Pair c) bs)"
  by (induction bs arbitrary: m) simp_all

section \<open>The batch loops\<close>

lemma slice_drop: "i < length xs \<Longrightarrow> slice xs i (i + n) @ drop (i + n) xs = drop i xs"
  by (simp add: slice_def add.commute [of i n] flip: drop_drop)

lemma countComponent_eq:
  "countComponent fetchAllPages client m c =
     (Inr (foldl (\<lambda>m cb. countBinding (fst cb) m (snd cb)) m
             (fetchedBindings fetchAllPages client [c])),
      failureWarnings fetchAllPages client [c])"
  by (cases "fetchAllPages (releaseBindingsPage client c)")
     (simp_all add: countComponent_def fetchedBindings_def bindingsOf_def failureWarnings_def
                    foldl_pairs awaitA_def)

lemma fetchedBindings_append:
  "fetchedBindings fp client (xs @ ys) = fetchedBindings fp client xs @ fetchedBindings fp client ys"
  by (simp add: fetchedBindings_def)

lemma failureWarnings_append:
  "failureWarnings fp client (xs @ ys) = failureWarnings fp client xs @ failureWarnings fp client ys"
  by (simp add: failureWarnings_def)

lemma fetchedBindings_Cons:
  "fetchedBindings fp client (x # xs) = fetchedBindings fp client [x] @ fetchedBindings fp client xs"
  by (simp add: fetchedBindings_def)

lemma failureWarnings_Cons:
  "failureWarnings fp client (x # xs) = failureWarnings fp client [x] @ failureWarnings fp client xs"
  by (simp add: failureWarnings_def)

lemma foldA_countComponent:
  "foldA (countComponent fp client) m cs =
     (Inr (foldl (\<lambda>m cb. countBinding (fst cb) m (snd cb)) m (fetchedBindings fp client cs)),
      failureWarnings fp client cs)"
proof (induction cs arbitrary: m)
  case Nil
  then show ?case by (simp add: returnA_def fetchedBindings_def failureWarnings_def)
next
  case (Cons c cs)
  show ?case
    apply (subst foldA.simps)
    apply (subst countComponent_eq)
    apply (simp only: bindA_Inr Cons.IH fst_conv snd_conv)
    apply (simp add: fetchedBindings_Cons [of _ _ c cs] failureWarnings_Cons [of _ _ c cs])
    done
qed

lemma countBatches_eq:
  "countBatches fp client components i m =
     (Inr (foldl (\<lambda>m cb. countBinding (fst cb) m (snd cb)) m
             (fetchedBindings fp client (drop i components))),
      failureWarnings fp client (drop i components))"
proof (induction fp client components i m rule: countBatches.induct)
  case (1 fp client components i m)
  show ?case
  proof (cases "i < length components")
    case True
    have split: "drop i components = slice components i (i + 10) @ drop (i + 10) components"
      using slice_drop [OF True] by simp
    show ?thesis
      apply (subst countBatches.simps)
      apply (simp only: True if_True foldA_countComponent bindA_Inr "1.IH" [OF True])
      apply (simp add: split fetchedBindings_append failureWarnings_append)
      done
  next
    case False
    then show ?thesis
      by (subst countBatches.simps) (simp add: returnA_def fetchedBindings_def failureWarnings_def)
  qed
qed

lemma fetchComponentCounts_eq:
  "fetchComponentCountsPerEnvironment fp (Inr client) components =
     (Inr (foldl (\<lambda>m cb. countBinding (fst cb) m (snd cb)) []
             (fetchedBindings fp client components)),
      failureWarnings fp client components)"
  by (simp add: fetchComponentCountsPerEnvironment_def countBatches_eq)

lemma healthyComponent_eq:
  "healthyComponent lib fp client c =
     (Inr (countOf (\<lambda>b. isReady lib (res_header b)) (bindingsOf fp client c)),
      failureWarnings fp client [c])"
  by (cases "fp (releaseBindingsPage client c)")
     (simp_all add: healthyComponent_def bindingsOf_def failureWarnings_def countOf_def awaitA_def)

lemma allA_healthy:
  "allA (map (healthyComponent lib fp client) cs) =
     (Inr (map (\<lambda>c. countOf (\<lambda>b. isReady lib (res_header b)) (bindingsOf fp client c)) cs),
      failureWarnings fp client cs)"
proof (induction cs)
  case Nil
  then show ?case by (simp add: failureWarnings_def)
next
  case (Cons c cs)
  show ?case
    apply (simp only: list.map allA.simps Cons.IH)
    apply (subst healthyComponent_eq)
    apply (simp add: failureWarnings_Cons [of _ _ c cs])
    done
qed

lemma reduce_sum: "foldl (\<lambda>sum count. sum + count) (a::nat) xs = a + sum_list xs"
  by (induction xs arbitrary: a) simp_all

lemma healthyBatches_eq:
  "healthyBatches lib fp client components i n =
     (Inr (n + sum_list (map (\<lambda>c. countOf (\<lambda>b. isReady lib (res_header b))
                                     (bindingsOf fp client c))
                           (drop i components))),
      failureWarnings fp client (drop i components))"
proof (induction lib fp client components i n rule: healthyBatches.induct)
  case (1 lib fp client components i n)
  show ?case
  proof (cases "i < length components")
    case True
    have split: "drop i components = slice components i (i + 10) @ drop (i + 10) components"
      using slice_drop [OF True] by simp
    show ?thesis
      apply (subst healthyBatches.simps)
      apply (simp only: True if_True allA_healthy bindA_Inr "1.IH" [OF True])
      apply (simp add: split failureWarnings_append reduce_sum)
      done
  next
    case False
    then show ?thesis
      by (subst healthyBatches.simps) (simp add: returnA_def failureWarnings_def)
  qed
qed

lemma fetchHealthyWorkloadCount_eq:
  "fetchHealthyWorkloadCount lib fp (Inr client) components =
     (Inr (sum_list (map (\<lambda>c. countOf (\<lambda>b. isReady lib (res_header b)) (bindingsOf fp client c))
                       components)),
      failureWarnings fp client components)"
  by (simp add: fetchHealthyWorkloadCount_def healthyBatches_eq)

lemma countOf_mset: "mset xs = mset ys \<Longrightarrow> countOf p xs = countOf p ys"
proof -
  assume "mset xs = mset ys"
  then have "size (filter_mset p (mset xs)) = size (filter_mset p (mset ys))" by simp
  then show ?thesis by (simp add: countOf_def flip: mset_filter)
qed

text \<open>
  Within a batch the callbacks finish in any order. The counters do not depend on it:
  processing the same bindings in another order gives the same count under every key.
\<close>

lemma counts_order_independent:
  assumes "mset cbs = mset cbs'"
  shows "Map_get (foldl (\<lambda>m cb. countBinding (fst cb) m (snd cb)) [] cbs) k
           = Map_get (foldl (\<lambda>m cb. countBinding (fst cb) m (snd cb)) [] cbs') k"
  by (simp add: Map_get_def map_of_counted countOf_mset [OF assms])

lemma sample_fetches:
  "fetchFirstPage (releaseBindingsPage sampleClient (sampleComponent ''web''))
     = Inr [sampleBinding ''web-dev'' True (Some ''dev''),
            sampleBinding ''web-dev-2'' False (Some ''dev''),
            sampleBinding ''web-none'' True None,
            sampleBinding ''web-empty'' True (Some [])]"
  "fetchFirstPage (releaseBindingsPage sampleClient (sampleComponent ''cart''))
     = Inr [sampleBinding ''cart-dev'' True (Some ''dev''),
            sampleBinding ''cart-prod'' True (Some ''prod'')]"
  "fetchFirstPage (releaseBindingsPage sampleClient (sampleComponent ''api''))
     = Inl (Exn ''Failed to fetch release bindings'')"
  "fetchFirstPage (releaseBindingsPage sampleClient (sampleComponent ''jobs''))
     = Inl (Exn ''ECONNRESET'')"
  by (simp_all add: fetchFirstPage_def releaseBindingsPage_def sampleClient_def sampleComponent_def
                    listed_def unavailable_def nullish_def)

lemma sample_ready:
  "isReady sampleLib (res_header (sampleBinding n r e)) = r"
  by (simp add: sampleLib_def sampleBinding_def named_def)

lemma sample_succeeds:
  "fetchSucceeds fetchFirstPage sampleClient (sampleComponent ''web'')"
  "fetchSucceeds fetchFirstPage sampleClient (sampleComponent ''cart'')"
  "\<not> fetchSucceeds fetchFirstPage sampleClient (sampleComponent ''api'')"
  "\<not> fetchSucceeds fetchFirstPage sampleClient (sampleComponent ''jobs'')"
  by (simp_all add: fetchSucceeds_def sample_fetches)

lemma sample_healthy:
  "countOf (\<lambda>b. isReady sampleLib (res_header b))
     (bindingsOf fetchFirstPage sampleClient (sampleComponent ''web'')) = 3"
  "countOf (\<lambda>b. isReady sampleLib (res_header b))
     (bindingsOf fetchFirstPage sampleClient (sampleComponent ''cart'')) = 2"
  by (simp_all add: bindingsOf_def sample_fetches countOf_def sample_ready)

lemma sample_fetched:
  "fetchedBindings fetchFirstPage sampleClient sampleComponents =
     [(sampleComponent ''web'', sampleBinding ''web-dev'' True (Some ''dev'')),
      (sampleComponent ''web'', sampleBinding ''web-dev-2'' False (Some ''dev'')),
      (sampleComponent ''web'', sampleBinding ''web-none'' True None),
      (sampleComponent ''web'', sampleBinding ''web-empty'' True (Some [])),
      (sampleComponent ''cart'', sampleBinding ''cart-dev'' True (Some ''dev'')),
      (sampleComponent ''cart'', sampleBinding ''cart-prod'' True (Some ''prod''))]"
  by (simp add: fetchedBindings_def bindingsOf_def sampleComponents_def sample_fetches)

lemma sample_hasEnvironment: "hasEnvironment (sampleBinding n r e) = truthy e"
  by (simp add: hasEnvironment_def sampleBinding_def truthy_def)

lemma sample_bindingKey:
  "bindingKey (sampleComponent c, sampleBinding n r (Some e)) = ''acme/'' @ e"
  by (simp add: bindingKey_def compositeKey_def environmentOf_def sampleBinding_def
                sampleComponent_def)

lemmas platform_defs = sampleClient_def sampleLib_def listed_def unavailable_def named_def
  sampleEnvironment_def sampleDataPlane_def sampleBinding_def sampleComponent_def
  fetchFirstPage_def releaseBindingsPage_def dataPlanesPage_def nullish_def chain_def

lemmas counting_defs = fetchedBindings_def bindingsOf_def failureWarnings_def fetchSucceeds_def
  countOf_def hasEnvironment_def environmentOf_def bindingKey_def compositeKey_def
  bindingsWarning_def sumValues_def

text \<open>
  C7, as stated, fails: a binding without environment passes through
  \<open>fetchComponentCountsPerEnvironment\<close> uncounted. Component \<open>web\<close> of the sample platform
  has four bindings, two for \<open>dev\<close>, one without environment and one with an empty one;
  the map returned holds the single count 2.
\<close>

theorem C7_every_binding_counted_counterexample:
  "fst (fetchComponentCountsPerEnvironment fetchFirstPage (Inr sampleClient)
          [sampleComponent ''web'']) = Inr [(''acme/dev'', 2)]
   \<and> length (fetchedBindings fetchFirstPage sampleClient [sampleComponent ''web'']) = 4
   \<and> sumValues [(''acme/dev'', 2)]
        \<noteq> length (fetchedBindings fetchFirstPage sampleClient [sampleComponent ''web''])"
  by (simp add: fetchComponentCounts_eq counting_defs platform_defs countBinding_def
                Map_get_def Let_def)

text \<open>
  C7, amended. The accumulation inside \<open>fetchComponentCountsPerEnvironment\<close> adds one to
  the counter of \<open>namespaceName/environment\<close> for every binding whose \<open>spec.environment\<close>
  is present and not empty, whether or not another binding of the same component has the
  same key, and skips the other bindings: the count under a key is the number of such
  bindings with that key, a key without one is absent, and the values sum to the number
  of bindings that name an environment.
\<close>

theorem C7_counts_bindings_with_environment:
  fixes client :: "'h Client"
  assumes "createOpenChoreoApiClient = Inr client"
  shows
    "\<exists>m. fst (fetchComponentCountsPerEnvironment fetchAllPages createOpenChoreoApiClient components)
           = Inr m
       \<and> distinct (map fst m)
       \<and> (\<forall>k. Map_get m k =
             (if countOf (\<lambda>cb. hasEnvironment (snd cb) \<and> bindingKey cb = k)
                   (fetchedBindings fetchAllPages client components) = 0
              then None
              else Some (countOf (\<lambda>cb. hasEnvironment (snd cb) \<and> bindingKey cb = k)
                           (fetchedBindings fetchAllPages client components))))
       \<and> sumValues m
           = countOf (\<lambda>cb. hasEnvironment (snd cb)) (fetchedBindings fetchAllPages client components)
       \<and> (\<forall>c (bs :: 'h NewReleaseBinding list).
             sumValues (foldl (countBinding c) [] bs) = countOf hasEnvironment bs)"
proof -
  let ?cbs = "fetchedBindings fetchAllPages client components"
  let ?m = "foldl (\<lambda>m cb. countBinding (fst cb) m (snd cb)) [] ?cbs"
  have r: "fst (fetchComponentCountsPerEnvironment fetchAllPages createOpenChoreoApiClient components)
             = Inr ?m"
    by (simp add: assms fetchComponentCounts_eq)
  have d: "distinct (map fst ?m)"
    by (simp add: distinct_counted)
  have g: "\<forall>k. Map_get ?m k =
             (if countOf (\<lambda>cb. hasEnvironment (snd cb) \<and> bindingKey cb = k) ?cbs = 0 then None
              else Some (countOf (\<lambda>cb. hasEnvironment (snd cb) \<and> bindingKey cb = k) ?cbs))"
    by (simp add: Map_get_def map_of_counted)
  have s: "sumValues ?m = countOf (\<lambda>cb. hasEnvironment (snd cb)) ?cbs"
    using sumValues_counted [of "[]" ?cbs] by (simp add: sumValues_def)
  have one: "\<forall>c (bs :: 'h NewReleaseBinding list).
               sumValues (foldl (countBinding c) [] bs) = countOf hasEnvironment bs"
  proof (intro allI)
    fix c :: Component and bs :: "'h NewReleaseBinding list"
    show "sumValues (foldl (countBinding c) [] bs) = countOf hasEnvironment bs"
      using sumValues_counted [of "[]" "map (Pair c) bs"]
      by (simp add: foldl_pairs sumValues_def countOf_def filter_map comp_def)
  qed
  from r d g s one show ?thesis by blast
qed

theorem C7_counts_bindings_with_environment_witness:
  "\<exists>m. fst (fetchComponentCountsPerEnvironment fetchFirstPage (Inr sampleClient) sampleComponents)
          = Inr m
     \<and> Map_get m ''acme/dev'' = Some 3
     \<and> Map_get m ''acme/prod'' = Some 1
     \<and> Map_get m ''acme/'' = None
     \<and> sumValues m = 4
     \<and> length (fetchedBindings fetchFirstPage sampleClient sampleComponents) = 6"
proof -
  have c: "(Inr sampleClient :: exn + SampleHeader Client) = Inr sampleClient" by simp
  from C7_counts_bindings_with_environment [OF c, of fetchFirstPage sampleComponents] obtain m where
    m: "fst (fetchComponentCountsPerEnvironment fetchFirstPage (Inr sampleClient) sampleComponents)
          = Inr m"
    and get: "\<forall>k. Map_get m k =
             (if countOf (\<lambda>cb. hasEnvironment (snd cb) \<and> bindingKey cb = k)
                   (fetchedBindings fetchFirstPage sampleClient sampleComponents) = 0
              then None
              else Some (countOf (\<lambda>cb. hasEnvironment (snd cb) \<and> bindingKey cb = k)
                           (fetchedBindings fetchFirstPage sampleClient sampleComponents)))"
    and total: "sumValues m
           = countOf (\<lambda>cb. hasEnvironment (snd cb))
               (fetchedBindings fetchFirstPage sampleClient sampleComponents)"
    by (elim exE conjE) (rule that; assumption)
  have "Map_get m ''acme/dev'' = Some 3"
    by (simp add: get sample_fetched countOf_def sample_hasEnvironment sample_bindingKey truthy_def)
  moreover have "Map_get m ''acme/prod'' = Some 1"
    by (simp add: get sample_fetched countOf_def sample_hasEnvironment sample_bindingKey truthy_def)
  moreover have "Map_get m ''acme/'' = None"
    by (simp add: get sample_fetched countOf_def sample_hasEnvironment sample_bindingKey truthy_def)
  moreover have "sumValues m = 4"
    by (simp add: total sample_fetched countOf_def sample_hasEnvironment truthy_def)
  moreover have "length (fetchedBindings fetchFirstPage sampleClient sampleComponents) = 6"
    by (simp add: sample_fetched)
  ultimately show ?thesis using m by (intro exI [of _ m] conjI)
qed

section \<open>Failing fetches contribute nothing\<close>

lemma bindingsOf_failed: "\<not> fetchSucceeds fp client c \<Longrightarrow> bindingsOf fp client c = []"
  by (simp add: fetchSucceeds_def bindingsOf_def split: sum.splits)

lemma fetchedBindings_succeeding:
  "fetchedBindings fp client (filter (fetchSucceeds fp client) cs) = fetchedBindings fp client cs"
  by (induction cs) (simp_all add: fetchedBindings_def bindingsOf_failed)

lemma healthy_succeeding:
  "sum_list (map (\<lambda>c. countOf p (bindingsOf fp client c)) (filter (fetchSucceeds fp client) cs))
     = sum_list (map (\<lambda>c. countOf p (bindingsOf fp client c)) cs)"
  by (induction cs) (simp_all add: bindingsOf_failed countOf_def)

lemma length_failureWarnings:
  "length (failureWarnings fp client cs) = countOf (\<lambda>c. \<not> fetchSucceeds fp client c) cs"
  by (induction cs) (simp_all add: failureWarnings_def fetchSucceeds_def countOf_def split: sum.splits)

lemma failureWarnings_level:
  "w \<in> set (failureWarnings fp client cs) \<Longrightarrow> \<exists>msg e. w = Log Warn msg (Some e)"
  by (auto simp: failureWarnings_def bindingsWarning_def split: sum.splits)

text \<open>
  C8. When the client could be created, a component whose binding fetch fails is logged
  with one warning and contributes nothing: \<open>fetchHealthyWorkloadCount\<close> returns the sum
  of the ready bindings of the components whose fetch succeeded, and
  \<open>fetchComponentCountsPerEnvironment\<close> returns the map it would return had the failing
  components not been listed. Both return a value, never an error, and their log is
  exactly the warnings of the failing components.
\<close>

theorem C8_failed_fetch_counts_zero:
  fixes client :: "'h Client"
  assumes "createOpenChoreoApiClient = Inr client"
  shows
    "fst (fetchHealthyWorkloadCount lib fetchAllPages createOpenChoreoApiClient components)
       = Inr (sum_list
                (map (\<lambda>c. countOf (\<lambda>b. isReady lib (res_header b))
                             (bindingsOf fetchAllPages client c))
                   (filter (fetchSucceeds fetchAllPages client) components)))
     \<and> snd (fetchHealthyWorkloadCount lib fetchAllPages createOpenChoreoApiClient components)
         = failureWarnings fetchAllPages client components
     \<and> (\<exists>m. fst (fetchComponentCountsPerEnvironment fetchAllPages createOpenChoreoApiClient
                    components) = Inr m)
     \<and> fst (fetchComponentCountsPerEnvironment fetchAllPages createOpenChoreoApiClient components)
         = fst (fetchComponentCountsPerEnvironment fetchAllPages createOpenChoreoApiClient
                  (filter (fetchSucceeds fetchAllPages client) components))
     \<and> snd (fetchComponentCountsPerEnvironment fetchAllPages createOpenChoreoApiClient components)
         = failureWarnings fetchAllPages client components
     \<and> length (failureWarnings fetchAllPages client components)
         = countOf (\<lambda>c. \<not> fetchSucceeds fetchAllPages client c) components
     \<and> (\<forall>w \<in> set (failureWarnings fetchAllPages client components).
           \<exists>msg e. w = Log Warn msg (Some e))"
proof -
  have "\<forall>w \<in> set (failureWarnings fetchAllPages client components).
           \<exists>msg e. w = Log Warn msg (Some e)"
    using failureWarnings_level by blast
  then show ?thesis
    by (simp add: assms fetchHealthyWorkloadCount_eq fetchComponentCounts_eq healthy_succeeding
                  fetchedBindings_succeeding length_failureWarnings)
qed

theorem C8_failed_fetch_counts_zero_witness:
  "fetchHealthyWorkloadCount sampleLib fetchFirstPage (Inr sampleClient) sampleComponents
     = (Inr 5,
        [bindingsWarning (sampleComponent ''api'') (Exn ''Failed to fetch release bindings''),
         bindingsWarning (sampleComponent ''jobs'') (Exn ''ECONNRESET'')])
   \<and> fst (fetchHealthyWorkloadCount sampleLib fetchFirstPage (Inr sampleClient) twelveComponents)
       = Inr 31
   \<and> length (snd (fetchHealthyWorkloadCount sampleLib fetchFirstPage (Inr sampleClient)
                    twelveComponents)) = 1"
proof -
  have c: "(Inr sampleClient :: exn + SampleHeader Client) = Inr sampleClient" by simp
  note a = C8_failed_fetch_counts_zero [OF c, of sampleLib fetchFirstPage sampleComponents]
  note b = C8_failed_fetch_counts_zero [OF c, of sampleLib fetchFirstPage twelveComponents]
  have "fst (fetchHealthyWorkloadCount sampleLib fetchFirstPage (Inr sampleClient) sampleComponents)
          = Inr 5"
    using a by (simp add: sampleComponents_def sample_succeeds sample_healthy)
  moreover have "snd (fetchHealthyWorkloadCount sampleLib fetchFirstPage (Inr sampleClient)
                        sampleComponents)
          = [bindingsWarning (sampleComponent ''api'') (Exn ''Failed to fetch release bindings''),
             bindingsWarning (sampleComponent ''jobs'') (Exn ''ECONNRESET'')]"
    using a by (simp add: sampleComponents_def failureWarnings_def sample_fetches)
  moreover have "fst (fetchHealthyWorkloadCount sampleLib fetchFirstPage (Inr sampleClient)
                        twelveComponents) = Inr 31"
    using b by (simp add: twelveComponents_def sample_succeeds sample_healthy sum_list_replicate)
  moreover have "length (snd (fetchHealthyWorkloadCount sampleLib fetchFirstPage (Inr sampleClient)
                    twelveComponents)) = 1"
    using b by (simp add: twelveComponents_def sample_succeeds countOf_def sum_list_replicate)
  ultimately show ?thesis by (simp add: prod_eq_iff)
qed

section \<open>Listings that swallow failures and listings that propagate them\<close>

lemma tryCatch_returns:
  assumes "\<And>e. \<exists>v. fst (h e) = Inr v"
  shows "\<exists>v. fst (tryCatch p h) = Inr v"
proof (cases p)
  case (Pair r l)
  then show ?thesis using assms by (cases r) simp_all
qed

lemma fetchDataplanesByNamespace_returns:
  "\<exists>xs. fst (fetchDataplanesByNamespace lib createClient nsName) = Inr xs"
  unfolding fetchDataplanesByNamespace_def by (rule tryCatch_returns) simp

lemma fetchEnvironmentsByNamespace_returns:
  "\<exists>xs. fst (fetchEnvironmentsByNamespace lib createClient nsName) = Inr xs"
  unfolding fetchEnvironmentsByNamespace_def by (rule tryCatch_returns) simp

lemma fetchAllDataplanes_returns: "\<exists>xs. fst (fetchAllDataplanes lib createClient) = Inr xs"
  unfolding fetchAllDataplanes_def by (rule tryCatch_returns) simp

lemma fetchAllEnvironments_returns: "\<exists>xs. fst (fetchAllEnvironments lib createClient) = Inr xs"
  unfolding fetchAllEnvironments_def by (rule tryCatch_returns) simp

lemma fetchDataplanesWithEnvironments_returns:
  "\<exists>xs. fst (fetchDataplanesWithEnvironments lib createClient) = Inr xs"
  unfolding fetchDataplanesWithEnvironments_def by (rule tryCatch_returns) simp

lemma listDataPlanes_eq:
  "listDataPlanes transformDataPlane fetchAllPages createClient nsName =
     (case createClient of
        Inl e \<Rightarrow> (Inl e, [Log Error (''Error listing data planes for '' @ nsName) (Some e)])
      | Inr client \<Rightarrow>
          (case fetchAllPages (dataPlanesPage client nsName) of
             Inl e \<Rightarrow> (Inl e, [Log Error (''Error listing data planes for '' @ nsName) (Some e)])
           | Inr rows \<Rightarrow> (Inr (map transformDataPlane rows), [])))"
proof (cases createClient)
  case (Inl e)
  then show ?thesis by (simp add: listDataPlanes_def)
next
  case (Inr client)
  then show ?thesis
    by (cases "fetchAllPages (dataPlanesPage client nsName)")
       (simp_all add: listDataPlanes_def awaitA_def returnA_def)
qed

lemma listDataPlanes_outcome:
  "fst (listDataPlanes transformDataPlane fetchAllPages createClient nsName) =
     (case createClient of
        Inl e \<Rightarrow> Inl e
      | Inr client \<Rightarrow>
          (case fetchAllPages (dataPlanesPage client nsName) of
             Inl e \<Rightarrow> Inl e
           | Inr rows \<Rightarrow> Inr (map transformDataPlane rows)))"
  by (simp add: listDataPlanes_eq split: sum.splits)

lemma listDataPlanes_log:
  "snd (listDataPlanes transformDataPlane fetchAllPages createClient nsName) =
     (case fst (listDataPlanes transformDataPlane fetchAllPages createClient nsName) of
        Inl e \<Rightarrow> [Log Error (''Error listing data planes for '' @ nsName) (Some e)]
      | Inr rows \<Rightarrow> [])"
  by (simp add: listDataPlanes_eq split: sum.splits)

lemma sample_namespaces:
  "fetchNamespaceNames sampleLib (Inr sampleClient) = (Inr [''acme'', ''beta''], [])"
  by (simp add: fetchNamespaceNames_def sampleClient_def sampleLib_def listed_def named_def
                chain_def truthy_def List.map_filter_simps returnA_def)

lemma sample_dataplanes_acme:
  "fetchDataplanesByNamespace sampleLib (Inr sampleClient) ''acme''
     = (Inr (transformDataPlaneData sampleLib [sampleDataPlane ''default''] ''acme''), [])"
  by (simp add: fetchDataplanesByNamespace_def sampleClient_def listed_def chain_def returnA_def)

lemma sample_dataplanes_beta:
  "fetchDataplanesByNamespace sampleLib (Inr sampleClient) ''beta''
     = (Inr [], [Log Error ''Failed to fetch dataplanes for namespace beta: 503 Service Unavailable''
                  None])"
  by (simp add: fetchDataplanesByNamespace_def sampleClient_def unavailable_def returnA_def)




lemma throw_logged [simp]:
  "bindA (logA lv msg cause) (\<lambda>_. (Inl e, [])) = (Inl e, [Log lv msg cause])"
  by (simp add: bindA_def logA_def)





















text \<open>
  The callbacks of \<open>listDataPlanes\<close> and \<open>fetchTraits\<close> test the reported error only: a
  response that is not ok and reports none passes as a page.
\<close>

lemma pages_pass_not_ok:
  "GET_dataplanes client nsName (Some 100) cursor = unauthorized
     \<Longrightarrow> dataPlanesPage client nsName cursor = Inr None"
  "GET_traits lclient nsName (Some 100) cursor = unauthorized
     \<Longrightarrow> traitsPage lclient nsName cursor = Inr None"
  by (simp_all add: dataPlanesPage_def traitsPage_def unauthorized_def)



section \<open>The sample platform, end to end\<close>

lemma sample_environments_acme:
  "fetchEnvironmentsByNamespace sampleLib (Inr sampleClient) ''acme''
     = (Inr [sampleEnv ''acme'' ''dev'' ''default'', sampleEnv ''acme'' ''lab'' [],
             sampleEnv ''acme'' ''prod'' ''default''], [])"
  by (simp add: fetchEnvironmentsByNamespace_def sampleClient_def listed_def chain_def returnA_def
                transformEnvironmentData_def sampleEnvironment_def sampleLib_def named_def
                sampleEnv_def str_or_def nullish_def Let_def)

lemma sample_environments_beta:
  "fetchEnvironmentsByNamespace sampleLib (Inr sampleClient) ''beta''
     = (Inr [sampleEnv ''beta'' ''dev'' ''default''], [])"
  by (simp add: fetchEnvironmentsByNamespace_def sampleClient_def listed_def chain_def returnA_def
                transformEnvironmentData_def sampleEnvironment_def sampleLib_def named_def
                sampleEnv_def str_or_def nullish_def Let_def)

lemma sample_environments:
  "fetchAllEnvironments sampleLib (Inr sampleClient) = (Inr sampleEnvironments, [])"
  by (simp add: fetchAllEnvironments_def sample_namespaces sample_environments_acme
                sample_environments_beta sampleEnvironments_def returnA_def)

lemma sample_grouping:
  "groupEnvironments [] sampleEnvironments
     = Inr [(''acme/default'',
               [sampleEnv ''acme'' ''dev'' ''default'', sampleEnv ''acme'' ''prod'' ''default'']),
            (''acme/'', [sampleEnv ''acme'' ''lab'' []]),
            (''beta/default'', [sampleEnv ''beta'' ''dev'' ''default''])]"
  by (simp add: sampleEnvironments_def groupEnvironment_Inr sample_key nullish_def)

text \<open>
  The groups are then joined to the data planes that could be listed: a group whose key
  names no listed data plane stays in the map and is not part of the response.
\<close>

lemma sample_join:
  "\<exists>dps. fetchDataplanesWithEnvironments sampleLib (Inr sampleClient)
            = (Inr dps,
               [Log Error ''Failed to fetch dataplanes for namespace beta: 503 Service Unavailable''
                  None])
      \<and> map (\<lambda>d. (dp_namespaceName d, dp_name d, map env_name (environments d))) dps
          = [(''acme'', ''default'', [''dev'', ''prod''])]"
proof -
  have dps: "fetchAllDataplanes sampleLib (Inr sampleClient)
               = (Inr (transformDataPlaneData sampleLib [sampleDataPlane ''default''] ''acme''),
                  [Log Error ''Failed to fetch dataplanes for namespace beta: 503 Service Unavailable''
                     None])"
    by (simp add: fetchAllDataplanes_def sample_namespaces sample_dataplanes_acme
                  sample_dataplanes_beta returnA_def)
  have "fetchDataplanesWithEnvironments sampleLib (Inr sampleClient)
          = (Inr (map (\<lambda>dataplane.
                         DataPlane.extend dataplane
                           (DataPlaneWithEnvironments.fields
                              (nullish
                                 (Map_get
                                    [(''acme/default'',
                                      [sampleEnv ''acme'' ''dev'' ''default'',
                                       sampleEnv ''acme'' ''prod'' ''default'']),
                                     (''acme/'', [sampleEnv ''acme'' ''lab'' []]),
                                     (''beta/default'', [sampleEnv ''beta'' ''dev'' ''default''])]
                                    (dp_namespaceName dataplane @ ''/'' @ dp_name dataplane))
                                 [])))
                    (transformDataPlaneData sampleLib [sampleDataPlane ''default''] ''acme'')),
             [Log Error ''Failed to fetch dataplanes for namespace beta: 503 Service Unavailable''
                None])"
    by (simp add: fetchDataplanesWithEnvironments_def dps sample_environments sample_grouping
                  awaitA_def returnA_def)
  then show ?thesis
    by (simp add: transformDataPlaneData_def sampleLib_def sampleDataPlane_def named_def
                  str_or_def Let_def Map_get_def nullish_def chain_def DataPlane.extend_def
                  DataPlaneWithEnvironments.fields_def sampleEnv_def)
qed

end
